theory Spec2Isabelle
  imports Complex_Main "HOL-Library.Multiset"
begin

section \<open>Numbers, errors and tables\<close>

text \<open>
  The metrics of SynthEval compute with NumPy floating point numbers. The model keeps the
  values that are not numbers apart from the numbers: a finite value is a real (rounding is
  not modelled, signed zeros are not told apart), and the two infinities and NaN are values
  of their own, produced by a division by zero exactly where NumPy produces them (NumPy
  warns and goes on, it does not raise).
\<close>

datatype npfloat = Fin real | PInf | NInf | NaN

datatype error = KeyError | ValueError

fun fl_neg :: "npfloat \<Rightarrow> npfloat" where
  "fl_neg (Fin a) = Fin (- a)"
| "fl_neg PInf = NInf"
| "fl_neg NInf = PInf"
| "fl_neg NaN = NaN"

fun fl_add :: "npfloat \<Rightarrow> npfloat \<Rightarrow> npfloat" where
  "fl_add (Fin a) (Fin b) = Fin (a + b)"
| "fl_add NaN _ = NaN"
| "fl_add _ NaN = NaN"
| "fl_add PInf NInf = NaN"
| "fl_add NInf PInf = NaN"
| "fl_add PInf _ = PInf"
| "fl_add _ PInf = PInf"
| "fl_add NInf _ = NInf"
| "fl_add _ NInf = NInf"

definition fl_sub :: "npfloat \<Rightarrow> npfloat \<Rightarrow> npfloat" where
  "fl_sub a b = fl_add a (fl_neg b)"

definition signed_inf :: "bool \<Rightarrow> npfloat" where
  "signed_inf positive = (if positive then PInf else NInf)"

fun fl_mul :: "npfloat \<Rightarrow> npfloat \<Rightarrow> npfloat" where
  "fl_mul (Fin a) (Fin b) = Fin (a * b)"
| "fl_mul NaN _ = NaN"
| "fl_mul _ NaN = NaN"
| "fl_mul (Fin a) PInf = (if a = 0 then NaN else signed_inf (0 < a))"
| "fl_mul (Fin a) NInf = (if a = 0 then NaN else signed_inf (a < 0))"
| "fl_mul PInf (Fin b) = (if b = 0 then NaN else signed_inf (0 < b))"
| "fl_mul NInf (Fin b) = (if b = 0 then NaN else signed_inf (b < 0))"
| "fl_mul PInf PInf = PInf"
| "fl_mul NInf NInf = PInf"
| "fl_mul PInf NInf = NInf"
| "fl_mul NInf PInf = NInf"

fun fl_div :: "npfloat \<Rightarrow> npfloat \<Rightarrow> npfloat" where
  "fl_div (Fin a) (Fin b) =
     (if b = 0 then (if a = 0 then NaN else signed_inf (0 < a)) else Fin (a / b))"
| "fl_div NaN _ = NaN"
| "fl_div _ NaN = NaN"
| "fl_div (Fin a) _ = Fin 0"
| "fl_div PInf (Fin b) = signed_inf (0 \<le> b)"
| "fl_div NInf (Fin b) = signed_inf (b < 0)"
| "fl_div _ _ = NaN"

fun fl_less :: "npfloat \<Rightarrow> npfloat \<Rightarrow> bool" where
  "fl_less (Fin a) (Fin b) = (a < b)"
| "fl_less NaN _ = False"
| "fl_less _ NaN = False"
| "fl_less NInf NInf = False"
| "fl_less NInf _ = True"
| "fl_less (Fin a) PInf = True"
| "fl_less _ _ = False"

fun fl_sum :: "npfloat list \<Rightarrow> npfloat" where
  "fl_sum [] = Fin 0"
| "fl_sum (x # xs) = fl_add x (fl_sum xs)"

text \<open>
  A pandas DataFrame: the number of rows and the named columns, in order. Every cell is a
  number: the categorical columns hold the codes of their categories, as the entropy helper
  (which rounds every column of the real data) needs them to.
\<close>

record dataframe =
  nrows :: nat
  columns :: "(string \<times> real list) list"

fun getitem_col :: "(string \<times> real list) list \<Rightarrow> string \<Rightarrow> error + real list" where
  "getitem_col [] lab = Inl KeyError"
| "getitem_col ((k, c) # rest) lab = (if k = lab then Inr c else getitem_col rest lab)"

text \<open>\<open>data[labs]\<close>: the frame of the columns named in \<open>labs\<close>, in that order.\<close>

fun getitem_cols_list ::
  "(string \<times> real list) list \<Rightarrow> string list \<Rightarrow> error + (string \<times> real list) list" where
  "getitem_cols_list cs [] = Inr []"
| "getitem_cols_list cs (lab # labs) =
     (case getitem_col cs lab of
        Inl e \<Rightarrow> Inl e
      | Inr c \<Rightarrow> (case getitem_cols_list cs labs of
                    Inl e \<Rightarrow> Inl e
                  | Inr rest \<Rightarrow> Inr ((lab, c) # rest)))"

definition getitem_cols :: "dataframe \<Rightarrow> string list \<Rightarrow> error + dataframe" where
  "getitem_cols data labs =
     (case getitem_cols_list (columns data) labs of
        Inl e \<Rightarrow> Inl e
      | Inr cs \<Rightarrow> Inr \<lparr>nrows = nrows data, columns = cs\<rparr>)"

section \<open>Column entropy\<close>

text \<open>\<open>np.round\<close> rounds to the nearest integer, and a half to the even neighbour.\<close>

definition np_round :: "real \<Rightarrow> int" where
  "np_round x =
     (let f = \<lfloor>x\<rfloor>; d = x - of_int f
      in if d < 1 / 2 then f else if 1 / 2 < d then f + 1 else if even f then f else f + 1)"

text \<open>\<open>np.unique(xs, return_counts=True)\<close>: the sorted distinct values and their counts.\<close>

definition np_unique_values :: "int list \<Rightarrow> int list" where
  "np_unique_values xs = sort (remdups xs)"

definition np_unique_counts :: "int list \<Rightarrow> nat list" where
  "np_unique_counts xs = map (count_list xs) (np_unique_values xs)"

text \<open>\<open>scipy.special.entr\<close>.\<close>

fun entr :: "npfloat \<Rightarrow> npfloat" where
  "entr (Fin x) = (if 0 < x then Fin (- x * ln x) else if x = 0 then Fin 0 else NInf)"
| "entr PInf = NInf"
| "entr NInf = NInf"
| "entr NaN = NaN"

text \<open>\<open>scipy.stats.entropy(pk)\<close> with no base: \<open>pk\<close> is normalised by its sum.\<close>

definition entropy :: "nat list \<Rightarrow> npfloat" where
  "entropy counts =
     (let total = sum_list counts;
          pk = map (\<lambda>c. fl_div (Fin (real c)) (Fin (real total))) counts
      in fl_sum (map entr pk))"

definition column_entropy :: "real list \<Rightarrow> npfloat" where
  "column_entropy labels = entropy (np_unique_counts (map np_round labels))"

section \<open>The metric instance and its results\<close>

datatype resval = Scalar npfloat | Matrix "npfloat list list"

type_synonym results_dict = "string \<rightharpoonup> resval"

text \<open>
  The results mapping is a Python dict, an object that the instance refers to: the store
  maps the address of each dict to its contents, and \<open>next_free\<close> is the address a new dict
  gets.
\<close>

record store =
  objs :: "nat \<Rightarrow> results_dict"
  next_free :: nat

record metric_instance =
  real_data :: dataframe
  synt_data :: dataframe
  cat_cols :: "string list"
  num_cols :: "string list"
  nn_dist :: string
  verbose :: bool
  results :: nat
  mixed_corr :: "bool option"

definition dict_setitem :: "store \<Rightarrow> nat \<Rightarrow> string \<Rightarrow> resval \<Rightarrow> store" where
  "dict_setitem st a k v = st\<lparr>objs := (objs st)(a := ((objs st a)(k \<mapsto> v)))\<rparr>"

definition new_dict :: "store \<Rightarrow> results_dict \<Rightarrow> nat \<times> store" where
  "new_dict st d =
     (next_free st, st\<lparr>objs := (objs st)(next_free st := d), next_free := Suc (next_free st)\<rparr>)"

section \<open>Epsilon identifiability\<close>

text \<open>
  The nearest-neighbour utility \<open>_knn_distance\<close> is a parameter of the model: it takes the
  query set, the reference set, the categorical columns, \<open>k\<close>, the distance keyword and the
  weights, and returns the distances and the indices, or raises.
\<close>

type_synonym knn_distance =
  "dataframe \<Rightarrow> dataframe \<Rightarrow> string list \<Rightarrow> nat \<Rightarrow> string \<Rightarrow> npfloat list
     \<Rightarrow> error + (npfloat list \<times> nat list)"

text \<open>
  The subtraction of two NumPy vectors: element by element when the lengths agree, a
  vector of one element is stretched, and any other pair of lengths raises.
\<close>

definition np_subtract :: "npfloat list \<Rightarrow> npfloat list \<Rightarrow> error + npfloat list" where
  "np_subtract xs ys =
     (if length xs = length ys then Inr (map2 fl_sub xs ys)
      else if length ys = 1 then Inr (map (\<lambda>x. fl_sub x (hd ys)) xs)
      else if length xs = 1 then Inr (map (\<lambda>y. fl_sub (hd xs) y) ys)
      else Inl ValueError)"

text \<open>Lines 49 to 51: under the keyword \<open>euclid\<close> the two frames are replaced.\<close>

definition restrict_to_numeric :: "metric_instance \<Rightarrow> error option \<times> metric_instance" where
  "restrict_to_numeric self =
     (if nn_dist self = ''euclid'' then
        (case getitem_cols (real_data self) (num_cols self) of
           Inl e \<Rightarrow> (Some e, self)
         | Inr r \<Rightarrow>
             (let self1 = self\<lparr>real_data := r\<rparr>
              in case getitem_cols (synt_data self1) (num_cols self1) of
                   Inl e \<Rightarrow> (Some e, self1)
                 | Inr s \<Rightarrow> (None, self1\<lparr>synt_data := s\<rparr>)))
      else (None, self))"

text \<open>Lines 66 and 67: the share of the rows whose difference is negative.\<close>

definition identifiability_value :: "npfloat list \<Rightarrow> nat \<Rightarrow> npfloat" where
  "identifiability_value R_Diff no =
     fl_div (Fin (real (length (filter (\<lambda>d. fl_less d (Fin 0)) R_Diff)))) (Fin (real no))"

definition entropy_weights :: "dataframe \<Rightarrow> npfloat list" where
  "entropy_weights data =
     map (\<lambda>w. fl_div (Fin 1) (fl_add w (Fin (1 / 10 ^ 16))))
       (map (\<lambda>(name, col). column_entropy col) (columns data))"

text \<open>
  \<open>EpsilonIdentifiability.evaluate\<close>: the outcome (an error, or the address of the
  returned dict), the instance and the store as the call leaves them.
\<close>

definition eps_evaluate ::
  "knn_distance \<Rightarrow> metric_instance \<Rightarrow> store \<Rightarrow> (error + nat) \<times> metric_instance \<times> store" where
  "eps_evaluate knn self0 st =
     (case restrict_to_numeric self0 of
        (Some e, self) \<Rightarrow> (Inl e, self, st)
      | (None, self) \<Rightarrow>
          (let no = nrows (real_data self);
               W_adjust = entropy_weights (real_data self)
           in case knn (real_data self) (real_data self) (cat_cols self) 1 (nn_dist self) W_adjust of
                Inl e \<Rightarrow> (Inl e, self, st)
              | Inr in_res \<Rightarrow>
                  (case knn (real_data self) (synt_data self) (cat_cols self) 1 (nn_dist self) W_adjust of
                     Inl e \<Rightarrow> (Inl e, self, st)
                   | Inr ext_res \<Rightarrow>
                       (case np_subtract (fst ext_res) (fst in_res) of
                          Inl e \<Rightarrow> (Inl e, self, st)
                        | Inr R_Diff \<Rightarrow>
                            (Inr (results self), self,
                             dict_setitem st (results self) ''eps_risk''
                               (Scalar (identifiability_value R_Diff no)))))))"

section \<open>Association measures\<close>

fun fl_sqrt :: "npfloat \<Rightarrow> npfloat" where
  "fl_sqrt (Fin a) = (if 0 \<le> a then Fin (sqrt a) else NaN)"
| "fl_sqrt PInf = PInf"
| "fl_sqrt NInf = NaN"
| "fl_sqrt NaN = NaN"

fun fl_tanh :: "npfloat \<Rightarrow> npfloat" where
  "fl_tanh (Fin a) = Fin (tanh a)"
| "fl_tanh PInf = Fin 1"
| "fl_tanh NInf = Fin (- 1)"
| "fl_tanh NaN = NaN"

fun fl_eq :: "npfloat \<Rightarrow> npfloat \<Rightarrow> bool" where
  "fl_eq (Fin a) (Fin b) = (a = b)"
| "fl_eq PInf PInf = True"
| "fl_eq NInf NInf = True"
| "fl_eq _ _ = False"

definition fl_square :: "npfloat \<Rightarrow> npfloat" where
  "fl_square a = fl_mul a a"

text \<open>
  \<open>DataFrame.corr()\<close> of pandas, called with no argument: the method is Pearson's, on
  the rows where both columns have a value (here all rows), and the entry is NaN when there
  is no row or when the product of the two sums of squared deviations has no positive root.
\<close>

definition pearson :: "real list \<Rightarrow> real list \<Rightarrow> npfloat" where
  "pearson xs ys =
     (let ps = zip xs ys; nobs = length ps
      in if nobs < 1 then NaN
         else
           (let meanx = sum_list (map fst ps) / real nobs;
                meany = sum_list (map snd ps) / real nobs;
                ssqdm_x = sum_list (map (\<lambda>(x, y). (x - meanx)\<^sup>2) ps);
                ssqdm_y = sum_list (map (\<lambda>(x, y). (y - meany)\<^sup>2) ps);
                covxy = sum_list (map (\<lambda>(x, y). (x - meanx) * (y - meany)) ps);
                divisor = sqrt (ssqdm_x * ssqdm_y)
            in if divisor \<noteq> 0 then Fin (covxy / divisor) else NaN))"

definition df_corr :: "dataframe \<Rightarrow> npfloat list list" where
  "df_corr data =
     map (\<lambda>(name1, x). map (\<lambda>(name2, y). pearson x y) (columns data)) (columns data)"

text \<open>
  \<open>pd.crosstab(var1, var2)\<close> as an array: the counts of the pairs of values, the rows
  for the sorted distinct values of the first variable and the columns for those of the
  second.
\<close>

definition pd_crosstab :: "real list \<Rightarrow> real list \<Rightarrow> nat list list" where
  "pd_crosstab var1 var2 =
     (let ps = zip var1 var2;
          rs = sort (remdups (map fst ps));
          cs = sort (remdups (map snd ps))
      in map (\<lambda>r. map (\<lambda>c. count_list ps (r, c)) cs) rs)"

definition shape :: "'a list list \<Rightarrow> nat \<times> nat" where
  "shape M = (length M, case M of [] \<Rightarrow> 0 | row # rest \<Rightarrow> length row)"

definition column_sums :: "nat list list \<Rightarrow> nat list" where
  "column_sums M = map (\<lambda>j. sum_list (map (\<lambda>row. row ! j) M)) [0..<snd (shape M)]"

text \<open>
  \<open>scipy.stats.contingency.expected_freq\<close>: the products of the marginal sums over the
  total.
\<close>

definition expected_freq :: "nat list list \<Rightarrow> real list list" where
  "expected_freq observed =
     (let total = sum_list (map sum_list observed)
      in map (\<lambda>r. map (\<lambda>c. real r * real c / real total) (column_sums observed))
           (map sum_list observed))"

text \<open>Yates' correction of one cell, as \<open>chi2_contingency\<close> applies it.\<close>

definition yates :: "real \<Rightarrow> real \<Rightarrow> real" where
  "yates obs ex = obs + min (1 / 2) \<bar>ex - obs\<bar> * sgn (ex - obs)"

text \<open>
  The statistic of \<open>scipy.stats.chi2_contingency(observed)\<close> (its first result), with
  the defaults: an empty table and an expected frequency of zero raise, no degree of
  freedom gives 0, and one degree of freedom brings Yates' correction.
\<close>

definition chi2_contingency :: "nat list list \<Rightarrow> error + real" where
  "chi2_contingency observed =
     (let (r, c) = shape observed
      in if r * c = 0 then Inl ValueError
         else
           (let expected = expected_freq observed
            in if 0 \<in> set (concat expected) then Inl ValueError
               else
                 (let dof = r * c + 1 - (r + c)
                  in if dof = 0 then Inr 0
                     else
                       Inr (sum_list (map (\<lambda>(orow, erow).
                              sum_list (map (\<lambda>(ob, ex).
                                ((if dof = 1 then yates (real ob) ex else real ob) - ex)\<^sup>2 / ex)
                                (zip orow erow)))
                              (zip observed expected))))))"

definition cramers_V :: "real list \<Rightarrow> real list \<Rightarrow> error + npfloat" where
  "cramers_V var1 var2 =
     (let crosstab = pd_crosstab var1 var2
      in case chi2_contingency crosstab of
           Inl e \<Rightarrow> Inl e
         | Inr stat \<Rightarrow>
             (let obs = sum_list (map sum_list crosstab);
                  mini = int (min (fst (shape crosstab)) (snd (shape crosstab))) - 1
              in Inr (fl_div (Fin stat) (Fin (real obs * real_of_int mini + 1 / 10 ^ 16)))))"

text \<open>
  \<open>pd.factorize\<close>: every label becomes the position of its first occurrence among the
  distinct labels, in the order in which they appear.
\<close>

fun index_of :: "'a list \<Rightarrow> 'a \<Rightarrow> nat" where
  "index_of [] a = 0"
| "index_of (x # xs) a = (if x = a then 0 else Suc (index_of xs a))"

definition uniques :: "'a list \<Rightarrow> 'a list" where
  "uniques xs = rev (remdups (rev xs))"

definition factorize :: "'a list \<Rightarrow> nat list" where
  "factorize xs = map (index_of (uniques xs)) xs"

definition np_max :: "nat list \<Rightarrow> error + nat" where
  "np_max xs = (case xs of [] \<Rightarrow> Inl ValueError | x # rest \<Rightarrow> Inr (fold max rest x))"

text \<open>A series read at a list of positions; a position it does not have raises.\<close>

fun take_positions :: "real list \<Rightarrow> nat list \<Rightarrow> error + real list" where
  "take_positions ms [] = Inr []"
| "take_positions ms (j # js) =
     (if j < length ms
      then (case take_positions ms js of Inl e \<Rightarrow> Inl e | Inr rest \<Rightarrow> Inr (ms ! j # rest))
      else Inl KeyError)"

definition np_average :: "real list \<Rightarrow> npfloat" where
  "np_average xs = fl_div (Fin (sum_list xs)) (Fin (real (length xs)))"

text \<open>
  The loop of \<open>_correlation_ratio\<close> over the category codes: the size and the average of
  every group, in the order of the codes. Like the other measures, the function is given
  here in exact arithmetic; its double precision reading, where the comparison of the
  numerator with zero sees rounded values, follows in a section of its own.
\<close>

fun group_stats :: "nat list \<Rightarrow> real list \<Rightarrow> nat list \<Rightarrow> error + (real \<times> npfloat) list" where
  "group_stats fcat measurements [] = Inr []"
| "group_stats fcat measurements (i # codes) =
     (case take_positions measurements (filter (\<lambda>j. fcat ! j = i) [0..<length fcat]) of
        Inl e \<Rightarrow> Inl e
      | Inr cat_measures \<Rightarrow>
          (case group_stats fcat measurements codes of
             Inl e \<Rightarrow> Inl e
           | Inr rest \<Rightarrow> Inr ((real (length cat_measures), np_average cat_measures) # rest)))"

definition correlation_ratio :: "real list \<Rightarrow> real list \<Rightarrow> error + npfloat" where
  "correlation_ratio categories measurements =
     (let fcat = factorize categories
      in case np_max fcat of
           Inl e \<Rightarrow> Inl e
         | Inr m \<Rightarrow>
             (let cat_num = m + 1
              in case group_stats fcat measurements [0..<cat_num] of
                   Inl e \<Rightarrow> Inl e
                 | Inr stats \<Rightarrow>
                     (let n_array = map fst stats;
                          y_avg_array = map snd stats;
                          y_total_avg =
                            fl_div (fl_sum (map2 (\<lambda>a n. fl_mul a (Fin n)) y_avg_array n_array))
                              (Fin (sum_list n_array));
                          numerator =
                            fl_sum (map2 (\<lambda>n a. fl_mul (Fin n) (fl_square (fl_sub a y_total_avg)))
                              n_array y_avg_array);
                          denominator =
                            fl_sum (map (\<lambda>y. fl_square (fl_sub (Fin y) y_total_avg)) measurements)
                      in if fl_eq numerator (Fin 0) then Inr (Fin 0)
                         else Inr (fl_div numerator denominator))))"

section \<open>The mixed correlation matrix\<close>

type_synonym association = "real list \<Rightarrow> real list \<Rightarrow> error + npfloat"

fun apply_row :: "association \<Rightarrow> dataframe \<Rightarrow> string \<Rightarrow> string list \<Rightarrow> error + npfloat list" where
  "apply_row func data lab1 [] = Inr []"
| "apply_row func data lab1 (lab2 # labs2) =
     (case getitem_col (columns data) lab1 of
        Inl e \<Rightarrow> Inl e
      | Inr col1 \<Rightarrow>
          (case getitem_col (columns data) lab2 of
             Inl e \<Rightarrow> Inl e
           | Inr col2 \<Rightarrow>
               (case func col1 col2 of
                  Inl e \<Rightarrow> Inl e
                | Inr v \<Rightarrow>
                    (case apply_row func data lab1 labs2 of
                       Inl e \<Rightarrow> Inl e
                     | Inr rest \<Rightarrow> Inr (v # rest)))))"

text \<open>
  \<open>_apply_mat\<close>: the matrix of \<open>func(data[lab1], data[lab2])\<close>, a row for every label of
  \<open>labs1\<close> and a column for every label of \<open>labs2\<close>.
\<close>

fun apply_mat ::
  "dataframe \<Rightarrow> association \<Rightarrow> string list \<Rightarrow> string list \<Rightarrow> error + npfloat list list" where
  "apply_mat data func [] labs2 = Inr []"
| "apply_mat data func (lab1 # labs1) labs2 =
     (case apply_row func data lab1 labs2 of
        Inl e \<Rightarrow> Inl e
      | Inr row \<Rightarrow>
          (case apply_mat data func labs1 labs2 of
             Inl e \<Rightarrow> Inl e
           | Inr rest \<Rightarrow> Inr (row # rest)))"

definition mat_transpose :: "nat \<Rightarrow> 'a list list \<Rightarrow> 'a list list" where
  "mat_transpose ncols M = map (\<lambda>j. map (\<lambda>row. row ! j) M) [0..<ncols]"

definition np_diag_of :: "npfloat list list \<Rightarrow> npfloat list" where
  "np_diag_of M = map (\<lambda>i. M ! i ! i) [0..<length M]"

definition np_diag :: "npfloat list \<Rightarrow> npfloat list list" where
  "np_diag v =
     map (\<lambda>i. map (\<lambda>j. if i = j then v ! i else Fin 0) [0..<length v]) [0..<length v]"

definition mat_add :: "npfloat list list \<Rightarrow> npfloat list list \<Rightarrow> npfloat list list" where
  "mat_add A B = map2 (map2 fl_add) A B"

definition mat_sub :: "npfloat list list \<Rightarrow> npfloat list list \<Rightarrow> npfloat list list" where
  "mat_sub A B = map2 (map2 fl_sub) A B"

text \<open>
  \<open>mixed_correlation\<close>. The three blocks carry the labels they were built from, so the
  concatenations put them side by side and one above the other: the rows and the columns
  of the result are the categorical columns followed by the numeric ones.
\<close>

definition mixed_correlation ::
  "dataframe \<Rightarrow> string list \<Rightarrow> string list \<Rightarrow> error + npfloat list list" where
  "mixed_correlation data nums cats =
     (case getitem_cols data nums of
        Inl e \<Rightarrow> Inl e
      | Inr numeric \<Rightarrow>
          (let corr_num_num = df_corr numeric
           in case apply_mat data cramers_V cats cats of
                Inl e \<Rightarrow> Inl e
              | Inr corr_cat_cat \<Rightarrow>
                  (case apply_mat data correlation_ratio cats nums of
                     Inl e \<Rightarrow> Inl e
                   | Inr corr_cat_num \<Rightarrow>
                       (let top_row = map2 (@) corr_cat_cat corr_cat_num;
                            bot_row = map2 (@) (mat_transpose (length nums) corr_cat_num)
                                        corr_num_num;
                            corr = top_row @ bot_row
                        in Inr (mat_add corr
                                 (np_diag (map (fl_sub (Fin 1)) (np_diag_of corr))))))))"

section \<open>The mixed correlation metric\<close>

text \<open>\<open>np.linalg.norm(M, ord='fro')\<close>.\<close>

definition frobenius_norm :: "npfloat list list \<Rightarrow> npfloat" where
  "frobenius_norm M = fl_sqrt (fl_sum (map fl_square (concat M)))"

text \<open>
  \<open>MixedCorrelation.evaluate\<close>. The heat map drawn under \<open>verbose\<close> changes neither the
  instance nor the results and is left out.
\<close>

definition correlation_matrices ::
  "bool \<Rightarrow> metric_instance \<Rightarrow> error + (npfloat list list \<times> npfloat list list)" where
  "correlation_matrices mixed self =
     (if mixed then
        (case mixed_correlation (real_data self) (num_cols self) (cat_cols self) of
           Inl e \<Rightarrow> Inl e
         | Inr r_corr \<Rightarrow>
             (case mixed_correlation (synt_data self) (num_cols self) (cat_cols self) of
                Inl e \<Rightarrow> Inl e
              | Inr f_corr \<Rightarrow> Inr (r_corr, f_corr)))
      else
        (case getitem_cols (real_data self) (num_cols self) of
           Inl e \<Rightarrow> Inl e
         | Inr r_num \<Rightarrow>
             (case getitem_cols (synt_data self) (num_cols self) of
                Inl e \<Rightarrow> Inl e
              | Inr f_num \<Rightarrow> Inr (df_corr r_num, df_corr f_num))))"

definition mixed_evaluate ::
  "bool \<Rightarrow> bool \<Rightarrow> metric_instance \<Rightarrow> store \<Rightarrow> (error + nat) \<times> metric_instance \<times> store" where
  "mixed_evaluate mixed return_mats self0 st =
     (let self = self0\<lparr>mixed_corr := Some mixed\<rparr>
      in case correlation_matrices mixed self of
           Inl e \<Rightarrow> (Inl e, self, st)
         | Inr (r_corr, f_corr) \<Rightarrow>
             (let corr_mat = mat_sub r_corr f_corr;
                  (a, st1) = new_dict st [''corr_mat_diff'' \<mapsto> Scalar (frobenius_norm corr_mat)];
                  self1 = self\<lparr>results := a\<rparr>;
                  st2 = (if return_mats
                         then dict_setitem
                                (dict_setitem
                                  (dict_setitem st1 a ''real_cor_mat'' (Matrix r_corr))
                                  a ''synt_cor_mat'' (Matrix f_corr))
                                a ''diff_cor_mat'' (Matrix corr_mat)
                         else st1)
              in (Inr (results self1), self1, st2)))"

text \<open>
  \<open>MixedCorrelation.normalize_output\<close>: the lists \<open>val\<close> and \<open>err\<close>. The entry
  \<open>corr_mat_diff\<close> is a number whenever \<open>evaluate\<close> stored it; on a matrix
  \<open>np.tanh\<close> and the subtraction work entry by entry.
\<close>

definition mixed_normalize_output ::
  "metric_instance \<Rightarrow> store \<Rightarrow> error + (resval list \<times> int list)" where
  "mixed_normalize_output self st =
     (case objs st (results self) ''corr_mat_diff'' of
        None \<Rightarrow> Inl KeyError
      | Some (Scalar v) \<Rightarrow> Inr ([Scalar (fl_sub (Fin 1) (fl_tanh v))], [0])
      | Some (Matrix M) \<Rightarrow>
          Inr ([Matrix (map (map (\<lambda>v. fl_sub (Fin 1) (fl_tanh v))) M)], [0]))"

text \<open>
  Spearman's rho, the measure that the docstrings name for two numeric columns: Pearson's
  coefficient of the ranks, equal values sharing the average of their ranks.
\<close>

definition rankdata :: "real list \<Rightarrow> real list" where
  "rankdata xs =
     map (\<lambda>x. real (length (filter (\<lambda>y. y < x) xs))
               + (real (length (filter (\<lambda>y. y = x) xs)) + 1) / 2) xs"

definition spearman :: "real list \<Rightarrow> real list \<Rightarrow> npfloat" where
  "spearman xs ys = pearson (rankdata xs) (rankdata ys)"

fun is_finite :: "npfloat \<Rightarrow> bool" where
  "is_finite (Fin a) = True"
| "is_finite x = False"

definition all_finite :: "npfloat list list \<Rightarrow> bool" where
  "all_finite M = list_all (list_all is_finite) M"

text \<open>
  The Shannon entropy, with the natural logarithm, of the shares of the distinct values of
  a list: the quantity that the column entropy is said to be.
\<close>

definition shannon_entropy :: "int list \<Rightarrow> real" where
  "shannon_entropy vs =
     - (\<Sum>v \<in> set vs. (real (count_list vs v) / real (length vs))
                       * ln (real (count_list vs v) / real (length vs)))"




section \<open>The correlation ratio in double precision\<close>

text \<open>
  \<open>_correlation_ratio\<close> decides between its two branches by comparing a computed
  number with zero, so its result depends on the rounding of the operations before. Here
  every operation is rounded as a binary64 operation is: to the nearest number with 53
  significant bits, a tie going to the even one, above the largest double to infinity.
  The sums are taken from left to right, as NumPy takes them for fewer than eight
  numbers; a longer column is outside this model, which then answers \<open>None\<close>.
\<close>

definition pow2 :: "int \<Rightarrow> real" where
  "pow2 k = (if 0 \<le> k then 2 ^ nat k else 1 / 2 ^ nat (- k))"

definition round_double :: "real \<Rightarrow> npfloat" where
  "round_double x =
     (if x = 0 then Fin 0
      else
        (let e = max \<lfloor>log 2 \<bar>x\<bar>\<rfloor> (- 1022);
             q = pow2 (e - 52);
             y = real_of_int (np_round (x / q)) * q
         in if 2 ^ 1024 \<le> \<bar>y\<bar> then signed_inf (0 < x) else Fin y))"


fun fp :: "npfloat \<Rightarrow> npfloat" where
  "fp (Fin x) = round_double x"
| "fp PInf = PInf"
| "fp NInf = NInf"
| "fp NaN = NaN"

definition np_sum_double :: "npfloat list \<Rightarrow> npfloat" where
  "np_sum_double xs = foldl (\<lambda>res a. fp (fl_add res a)) (Fin 0) xs"

fun group_stats_double ::
  "nat list \<Rightarrow> real list \<Rightarrow> nat list \<Rightarrow> error + (real \<times> npfloat) list" where
  "group_stats_double fcat measurements [] = Inr []"
| "group_stats_double fcat measurements (i # codes) =
     (case take_positions measurements (filter (\<lambda>j. fcat ! j = i) [0..<length fcat]) of
        Inl e \<Rightarrow> Inl e
      | Inr cat_measures \<Rightarrow>
          (case group_stats_double fcat measurements codes of
             Inl e \<Rightarrow> Inl e
           | Inr rest \<Rightarrow>
               Inr ((real (length cat_measures),
                     fp (fl_div (np_sum_double (map Fin cat_measures))
                           (Fin (real (length cat_measures))))) # rest)))"

definition correlation_ratio_double :: "real list \<Rightarrow> real list \<Rightarrow> (error + npfloat) option" where
  "correlation_ratio_double categories measurements =
     (if 8 \<le> length measurements then None
      else Some
        (let fcat = factorize categories
         in case np_max fcat of
              Inl e \<Rightarrow> Inl e
            | Inr m \<Rightarrow>
                (let cat_num = m + 1
                 in case group_stats_double fcat measurements [0..<cat_num] of
                      Inl e \<Rightarrow> Inl e
                    | Inr stats \<Rightarrow>
                        (let n_array = map fst stats;
                             y_avg_array = map snd stats;
                             y_total_avg =
                               fp (fl_div
                                 (np_sum_double (map2 (\<lambda>a n. fp (fl_mul a (Fin n))) y_avg_array n_array))
                                 (np_sum_double (map Fin n_array)));
                             numerator =
                               np_sum_double (map2 (\<lambda>n a. fp (fl_mul (Fin n)
                                   (fp (fl_square (fp (fl_sub a y_total_avg))))))
                                 n_array y_avg_array);
                             denominator =
                               np_sum_double (map (\<lambda>y. fp (fl_square (fp (fl_sub (Fin y) y_total_avg))))
                                 measurements)
                         in if fl_eq numerator (Fin 0) then Inr (Fin 0)
                            else Inr (fp (fl_div numerator denominator))))))"

text \<open>The double that the literal \<open>0.1\<close> denotes.\<close>

definition tenth :: real where
  "tenth = 3602879701896397 / 2 ^ 55"


section \<open>Example inputs\<close>

text \<open>
  Two real rows and two synthetic rows, a numeric column and a categorical one. The
  utility \<open>knn_stub\<close> answers with fixed distances: those of a frame to itself, and those of
  a frame to another one.
\<close>

definition example_real :: dataframe where
  "example_real = \<lparr>nrows = 2, columns = [(''age'', [30, 41]), (''sex'', [0, 1])]\<rparr>"

definition example_synt :: dataframe where
  "example_synt = \<lparr>nrows = 2, columns = [(''age'', [30, 40]), (''sex'', [0, 1])]\<rparr>"

definition example_instance :: "string \<Rightarrow> metric_instance" where
  "example_instance keyword =
     \<lparr>real_data = example_real, synt_data = example_synt, cat_cols = [''sex''],
      num_cols = [''age''], nn_dist = keyword, verbose = False, results = 0,
      mixed_corr = None\<rparr>"

definition example_store :: store where
  "example_store = \<lparr>objs = (\<lambda>a. Map.empty), next_free = 1\<rparr>"

definition knn_stub :: "npfloat list \<Rightarrow> npfloat list \<Rightarrow> knn_distance" where
  "knn_stub d_self d_other query reference cats k keyword weights =
     (if reference = query then Inr (d_self, [1, 0]) else Inr (d_other, [0, 1]))"

definition example_ranked :: dataframe where
  "example_ranked = \<lparr>nrows = 3, columns = [(''x'', [0, 1, 3]), (''y'', [0, 2, 3])]\<rparr>"

definition example_single_row :: dataframe where
  "example_single_row = \<lparr>nrows = 1, columns = [(''age'', [30]), (''sex'', [0])]\<rparr>"

definition example_constant :: dataframe where
  "example_constant = \<lparr>nrows = 2, columns = [(''age'', [30, 41]), (''dose'', [3, 3])]\<rparr>"

definition example_store_used :: store where
  "example_store_used =
     \<lparr>objs = (\<lambda>a. if a = 0 then [''note'' \<mapsto> Scalar (Fin 7)] else Map.empty), next_free = 1\<rparr>"

definition mixed_instance ::
  "dataframe \<Rightarrow> dataframe \<Rightarrow> string list \<Rightarrow> string list \<Rightarrow> metric_instance" where
  "mixed_instance rdata sdata nums cats =
     \<lparr>real_data = rdata, synt_data = sdata, cat_cols = cats, num_cols = nums,
      nn_dist = ''gower'', verbose = False, results = 0, mixed_corr = None\<rparr>"


section \<open>Properties of the identifiability score\<close>

lemma fl_less_sub_zero: "fl_less (fl_sub e i) (Fin 0) = fl_less e i"
  by (cases e; cases i) (simp_all add: fl_sub_def)

lemma count_negative_differences:
  assumes "length xs = length ys"
  shows "length (filter (\<lambda>d. fl_less d (Fin 0)) (map2 fl_sub xs ys)) =
         length (filter (\<lambda>i. fl_less (xs ! i) (ys ! i)) [0..<length xs])"
proof -
  have "map2 fl_sub xs ys = map (\<lambda>i. fl_sub (xs ! i) (ys ! i)) [0..<length xs]"
    using assms by (intro nth_equalityI) simp_all
  then show ?thesis
    by (simp add: filter_map comp_def fl_less_sub_zero)
qed

lemma eps_evaluate_returns:
  assumes "restrict_to_numeric self0 = (None, self)"
    and "knn (real_data self) (real_data self) (cat_cols self) 1 (nn_dist self)
           (entropy_weights (real_data self)) = Inr (in_dists, in_idx)"
    and "knn (real_data self) (synt_data self) (cat_cols self) 1 (nn_dist self)
           (entropy_weights (real_data self)) = Inr (ext_distances, ext_idx)"
    and "length ext_distances = length in_dists"
  shows "eps_evaluate knn self0 st =
           (Inr (results self), self,
            dict_setitem st (results self) ''eps_risk''
              (Scalar (identifiability_value (map2 fl_sub ext_distances in_dists)
                 (nrows (real_data self)))))"
  using assms by (simp add: eps_evaluate_def np_subtract_def)

lemma restrict_to_numeric_results:
  "restrict_to_numeric self0 = (r, self) \<Longrightarrow> results self = results self0"
  by (auto simp: restrict_to_numeric_def Let_def split: if_splits sum.splits)

lemma count_filter_le: "length (filter P [0..<n]) \<le> n"
  using length_filter_le [of P "[0..<n]"] by simp

text \<open>
  Claim C2. When the real data has at least one row and the distance utility returns one
  distance per real row for both queries, \<open>evaluate\<close> returns and stores under
  \<open>eps_risk\<close> the number of rows \<open>i\<close> with \<open>ext_distances[i] < in_dists[i]\<close>, the
  comparison being strict, divided by the number of real rows.
\<close>

theorem eps_risk_counts_strictly_closer_rows:
  assumes "restrict_to_numeric self0 = (None, self)"
    and "knn (real_data self) (real_data self) (cat_cols self) 1 (nn_dist self)
           (entropy_weights (real_data self)) = Inr (in_dists, in_idx)"
    and "knn (real_data self) (synt_data self) (cat_cols self) 1 (nn_dist self)
           (entropy_weights (real_data self)) = Inr (ext_distances, ext_idx)"
    and "length in_dists = nrows (real_data self)"
    and "length ext_distances = nrows (real_data self)"
    and "0 < nrows (real_data self)"
  shows "fst (eps_evaluate knn self0 st) = Inr (results self0) \<and>
         objs (snd (snd (eps_evaluate knn self0 st))) (results self0) ''eps_risk'' =
           Some (Scalar (Fin
             (real (length (filter (\<lambda>i. fl_less (ext_distances ! i) (in_dists ! i))
                      [0..<nrows (real_data self)]))
              / real (nrows (real_data self)))))"
proof -
  have len: "length ext_distances = length in_dists"
    using assms(4,5) by simp
  have res: "results self = results self0"
    using assms(1) by (rule restrict_to_numeric_results)
  show ?thesis
    using assms(5,6) count_negative_differences [OF len]
    by (simp add: eps_evaluate_returns [where knn = knn, OF assms(1-3) len] res dict_setitem_def
        identifiability_value_def)
qed

theorem eps_risk_counts_strictly_closer_rows_witness:
  "objs (snd (snd (eps_evaluate (knn_stub [Fin 11, Fin 1] [Fin 0, Fin 1])
      (example_instance ''gower'') example_store))) 0 ''eps_risk'' = Some (Scalar (Fin (1 / 2)))"
proof -
  let ?self = "example_instance ''gower''"
  have r: "restrict_to_numeric ?self = (None, ?self)"
    by (simp add: restrict_to_numeric_def example_instance_def)
  have k1: "knn_stub [Fin 11, Fin 1] [Fin 0, Fin 1] (real_data ?self) (real_data ?self)
      (cat_cols ?self) 1 (nn_dist ?self) (entropy_weights (real_data ?self)) =
      Inr ([Fin 11, Fin 1], [1, 0])"
    by (simp add: knn_stub_def)
  have k2: "knn_stub [Fin 11, Fin 1] [Fin 0, Fin 1] (real_data ?self) (synt_data ?self)
      (cat_cols ?self) 1 (nn_dist ?self) (entropy_weights (real_data ?self)) =
      Inr ([Fin 0, Fin 1], [0, 1])"
    by (simp add: knn_stub_def example_instance_def example_real_def example_synt_def)
  have n: "nrows (real_data ?self) = 2"
    by (simp add: example_instance_def example_real_def)
  have u: "[0..<2] = [0, 1]"
    by (simp add: upt_rec)
  show ?thesis
    using eps_risk_counts_strictly_closer_rows
      [where knn = "knn_stub [Fin 11, Fin 1] [Fin 0, Fin 1]" and st = example_store, OF r k1 k2]
    by (simp add: n u) (simp add: example_instance_def)
qed

text \<open>
  Claim C4. Under the same conditions the stored score is a number between 0 and 1.
\<close>

theorem eps_risk_in_unit_interval:
  assumes "restrict_to_numeric self0 = (None, self)"
    and "knn (real_data self) (real_data self) (cat_cols self) 1 (nn_dist self)
           (entropy_weights (real_data self)) = Inr (in_dists, in_idx)"
    and "knn (real_data self) (synt_data self) (cat_cols self) 1 (nn_dist self)
           (entropy_weights (real_data self)) = Inr (ext_distances, ext_idx)"
    and "length in_dists = nrows (real_data self)"
    and "length ext_distances = nrows (real_data self)"
    and "0 < nrows (real_data self)"
  shows "\<exists>v. objs (snd (snd (eps_evaluate knn self0 st))) (results self0) ''eps_risk'' =
           Some (Scalar (Fin v)) \<and> 0 \<le> v \<and> v \<le> 1"
proof -
  have len: "length ext_distances = length in_dists"
    using assms(4,5) by simp
  have res: "results self = results self0"
    using assms(1) by (rule restrict_to_numeric_results)
  let ?c = "length (filter (\<lambda>i. fl_less (ext_distances ! i) (in_dists ! i))
      [0..<nrows (real_data self)])"
  let ?n = "nrows (real_data self)"
  have stored: "objs (snd (snd (eps_evaluate knn self0 st))) (results self0) ''eps_risk'' =
      Some (Scalar (Fin (real ?c / real ?n)))"
    using assms(5,6) count_negative_differences [OF len]
    by (simp add: eps_evaluate_returns [where knn = knn, OF assms(1-3) len] res dict_setitem_def
        identifiability_value_def)
  have "?c \<le> ?n" by (rule count_filter_le)
  then have "0 \<le> real ?c / real ?n \<and> real ?c / real ?n \<le> 1"
    using assms(6) by (simp add: divide_le_eq)
  with stored show ?thesis by blast
qed

theorem eps_risk_in_unit_interval_witness:
  "\<exists>v. objs (snd (snd (eps_evaluate (knn_stub [Fin 3, Fin 3] [Fin 2, Fin 1])
      (example_instance ''euclid'') example_store))) 0 ''eps_risk'' = Some (Scalar (Fin v))
     \<and> 0 \<le> v \<and> v \<le> 1"
proof -
  let ?start = "example_instance ''euclid''"
  let ?inst = "?start\<lparr>real_data := \<lparr>nrows = 2, columns = [(''age'', [30, 41])]\<rparr>,
      synt_data := \<lparr>nrows = 2, columns = [(''age'', [30, 40])]\<rparr>\<rparr>"
  have r: "restrict_to_numeric ?start = (None, ?inst)"
    by (simp add: restrict_to_numeric_def example_instance_def getitem_cols_def
        example_real_def example_synt_def)
  have k1: "knn_stub [Fin 3, Fin 3] [Fin 2, Fin 1] (real_data ?inst) (real_data ?inst)
      (cat_cols ?inst) 1 (nn_dist ?inst) (entropy_weights (real_data ?inst)) =
      Inr ([Fin 3, Fin 3], [1, 0])"
    by (simp add: knn_stub_def)
  have k2: "knn_stub [Fin 3, Fin 3] [Fin 2, Fin 1] (real_data ?inst) (synt_data ?inst)
      (cat_cols ?inst) 1 (nn_dist ?inst) (entropy_weights (real_data ?inst)) =
      Inr ([Fin 2, Fin 1], [0, 1])"
    by (simp add: knn_stub_def)
  have res: "results ?start = 0"
    by (simp add: example_instance_def)
  show ?thesis
    using eps_risk_in_unit_interval
      [where knn = "knn_stub [Fin 3, Fin 3] [Fin 2, Fin 1]" and st = example_store, OF r k1 k2]
    by (simp add: res)
qed

section \<open>The dataset attributes after the identifiability metric\<close>

lemma getitem_cols_list_names:
  "getitem_cols_list cs labs = Inr r \<Longrightarrow> map fst r = labs"
  by (induction labs arbitrary: r) (auto split: sum.splits)

lemma getitem_cols_names:
  "getitem_cols data labs = Inr d \<Longrightarrow> map fst (columns d) = labs"
  by (auto simp: getitem_cols_def getitem_cols_list_names split: sum.splits)

lemma restrict_to_numeric_euclid:
  assumes "restrict_to_numeric self0 = (None, self)" and "nn_dist self0 = ''euclid''"
  shows "getitem_cols (real_data self0) (num_cols self0) = Inr (real_data self) \<and>
         getitem_cols (synt_data self0) (num_cols self0) = Inr (synt_data self)"
  using assms by (auto simp: restrict_to_numeric_def Let_def split: sum.splits)

lemma restrict_to_numeric_other:
  assumes "nn_dist self0 \<noteq> ''euclid''"
  shows "restrict_to_numeric self0 = (None, self0)"
  using assms by (simp add: restrict_to_numeric_def)

lemma eps_evaluate_instance:
  "restrict_to_numeric self0 = (r, self) \<Longrightarrow> fst (snd (eps_evaluate knn self0 st)) = self"
  by (cases r) (auto simp: eps_evaluate_def Let_def split: sum.splits)

lemma eps_evaluate_raises:
  "restrict_to_numeric self0 = (Some e, self) \<Longrightarrow> fst (eps_evaluate knn self0 st) = Inl e"
  by (simp add: eps_evaluate_def)

lemma getitem_col_map_of:
  "getitem_col cs lab = (case map_of cs lab of None \<Rightarrow> Inl KeyError | Some c \<Rightarrow> Inr c)"
  by (induction cs) auto

lemma getitem_cols_list_cells:
  "getitem_cols_list cs labs = Inr r \<Longrightarrow> i < length labs \<Longrightarrow>
   map_of cs (labs ! i) = Some (snd (r ! i))"
proof (induction labs arbitrary: r i)
  case Nil
  then show ?case by simp
next
  case (Cons lab labs)
  from Cons.prems(1) obtain c rest where c: "getitem_col cs lab = Inr c"
    and rest: "getitem_cols_list cs labs = Inr rest" and r: "r = (lab, c) # rest"
    by (auto split: sum.splits)
  show ?case
  proof (cases i)
    case 0
    with c r show ?thesis
      by (simp add: getitem_col_map_of split: option.splits)
  next
    case (Suc j)
    with Cons.prems(2) have "j < length labs" by simp
    from Cons.IH [OF rest this] Suc r show ?thesis by simp
  qed
qed

lemma getitem_cols_cells:
  assumes "getitem_cols data labs = Inr d"
  shows "nrows d = nrows data"
    and "i < length labs \<Longrightarrow> map_of (columns data) (labs ! i) = Some (snd (columns d ! i))"
proof -
  from assms obtain cs where cs: "getitem_cols_list (columns data) labs = Inr cs"
    and d: "d = \<lparr>nrows = nrows data, columns = cs\<rparr>"
    by (auto simp: getitem_cols_def split: sum.splits)
  show "nrows d = nrows data" by (simp add: d)
  show "map_of (columns data) (labs ! i) = Some (snd (columns d ! i))" if "i < length labs"
    using getitem_cols_list_cells [OF cs that] by (simp add: d)
qed

text \<open>
  Claim C10. Under the keyword \<open>euclid\<close>, when \<open>evaluate\<close> returns, the attributes
  \<open>real_data\<close> and \<open>synt_data\<close> of the instance are the frames restricted to the numeric
  columns: they have the rows they had, their columns are those of \<open>num_cols\<close>, in
  that order, each with the cells that the column of that name had before the call, and
  none of them is a categorical column when the two lists are disjoint. Under every other
  keyword the two attributes are the ones the instance had before the call.
\<close>

theorem eps_evaluate_dataset_attributes:
  "(nn_dist self0 = ''euclid'' \<longrightarrow> fst (eps_evaluate knn self0 st) = Inr a \<longrightarrow>
      getitem_cols (real_data self0) (num_cols self0) =
        Inr (real_data (fst (snd (eps_evaluate knn self0 st)))) \<and>
      getitem_cols (synt_data self0) (num_cols self0) =
        Inr (synt_data (fst (snd (eps_evaluate knn self0 st)))) \<and>
      map fst (columns (real_data (fst (snd (eps_evaluate knn self0 st))))) = num_cols self0 \<and>
      map fst (columns (synt_data (fst (snd (eps_evaluate knn self0 st))))) = num_cols self0 \<and>
      nrows (real_data (fst (snd (eps_evaluate knn self0 st)))) = nrows (real_data self0) \<and>
      nrows (synt_data (fst (snd (eps_evaluate knn self0 st)))) = nrows (synt_data self0) \<and>
      (\<forall>i < length (num_cols self0).
         map_of (columns (real_data self0)) (num_cols self0 ! i) =
           Some (snd (columns (real_data (fst (snd (eps_evaluate knn self0 st)))) ! i)) \<and>
         map_of (columns (synt_data self0)) (num_cols self0 ! i) =
           Some (snd (columns (synt_data (fst (snd (eps_evaluate knn self0 st)))) ! i))) \<and>
      (set (num_cols self0) \<inter> set (cat_cols self0) = {} \<longrightarrow>
         (\<forall>c \<in> set (cat_cols self0).
            c \<notin> fst ` set (columns (real_data (fst (snd (eps_evaluate knn self0 st))))) \<and>
            c \<notin> fst ` set (columns (synt_data (fst (snd (eps_evaluate knn self0 st)))))))) \<and>
   (nn_dist self0 \<noteq> ''euclid'' \<longrightarrow>
      real_data (fst (snd (eps_evaluate knn self0 st))) = real_data self0 \<and>
      synt_data (fst (snd (eps_evaluate knn self0 st))) = synt_data self0)"
proof (intro conjI impI allI)
  assume other: "nn_dist self0 \<noteq> ''euclid''"
  have "fst (snd (eps_evaluate knn self0 st)) = self0"
    using restrict_to_numeric_other [OF other] by (rule eps_evaluate_instance)
  then show "real_data (fst (snd (eps_evaluate knn self0 st))) = real_data self0"
    and "synt_data (fst (snd (eps_evaluate knn self0 st))) = synt_data self0"
    by simp_all
next
  assume euclid: "nn_dist self0 = ''euclid''"
    and ret: "fst (eps_evaluate knn self0 st) = Inr a"
  obtain r self where rs: "restrict_to_numeric self0 = (r, self)"
    by (cases "restrict_to_numeric self0")
  have "r = None"
  proof (cases r)
    case (Some e)
    with rs ret eps_evaluate_raises [of self0 e self knn st] show ?thesis by simp
  qed simp
  with rs have ok: "restrict_to_numeric self0 = (None, self)" by simp
  have inst: "fst (snd (eps_evaluate knn self0 st)) = self"
    using ok by (rule eps_evaluate_instance)
  note sel = restrict_to_numeric_euclid [OF ok euclid]
  note sel_real = sel [THEN conjunct1] and sel_synt = sel [THEN conjunct2]
  show "getitem_cols (real_data self0) (num_cols self0) =
      Inr (real_data (fst (snd (eps_evaluate knn self0 st))))"
    using sel by (simp add: inst)
  show "getitem_cols (synt_data self0) (num_cols self0) =
      Inr (synt_data (fst (snd (eps_evaluate knn self0 st))))"
    using sel by (simp add: inst)
  show names_real:
    "map fst (columns (real_data (fst (snd (eps_evaluate knn self0 st))))) = num_cols self0"
    using sel_real [THEN getitem_cols_names] by (simp add: inst)
  show names_synt:
    "map fst (columns (synt_data (fst (snd (eps_evaluate knn self0 st))))) = num_cols self0"
    using sel_synt [THEN getitem_cols_names] by (simp add: inst)
  show "nrows (real_data (fst (snd (eps_evaluate knn self0 st)))) = nrows (real_data self0)"
    using getitem_cols_cells(1) [OF sel_real] by (simp add: inst)
  show "nrows (synt_data (fst (snd (eps_evaluate knn self0 st)))) = nrows (synt_data self0)"
    using getitem_cols_cells(1) [OF sel_synt] by (simp add: inst)
  show "map_of (columns (real_data self0)) (num_cols self0 ! i) =
      Some (snd (columns (real_data (fst (snd (eps_evaluate knn self0 st)))) ! i))"
    if "i < length (num_cols self0)" for i
    using getitem_cols_cells(2) [OF sel_real that] by (simp add: inst)
  show "map_of (columns (synt_data self0)) (num_cols self0 ! i) =
      Some (snd (columns (synt_data (fst (snd (eps_evaluate knn self0 st)))) ! i))"
    if "i < length (num_cols self0)" for i
    using getitem_cols_cells(2) [OF sel_synt that] by (simp add: inst)
  assume disjoint: "set (num_cols self0) \<inter> set (cat_cols self0) = {}"
  have "fst ` set (columns (real_data (fst (snd (eps_evaluate knn self0 st))))) =
      set (num_cols self0)"
    using names_real by (metis set_map)
  moreover have "fst ` set (columns (synt_data (fst (snd (eps_evaluate knn self0 st))))) =
      set (num_cols self0)"
    using names_synt by (metis set_map)
  ultimately show "\<forall>c \<in> set (cat_cols self0).
      c \<notin> fst ` set (columns (real_data (fst (snd (eps_evaluate knn self0 st))))) \<and>
      c \<notin> fst ` set (columns (synt_data (fst (snd (eps_evaluate knn self0 st)))))"
    using disjoint by auto
qed

theorem eps_evaluate_dataset_attributes_witness:
  "map fst (columns (real_data (fst (snd (eps_evaluate (knn_stub [Fin 2, Fin 2] [Fin 1, Fin 3])
      (example_instance ''euclid'') example_store))))) = [''age''] \<and>
   nrows (real_data (fst (snd (eps_evaluate (knn_stub [Fin 2, Fin 2] [Fin 1, Fin 3])
      (example_instance ''euclid'') example_store)))) = 2 \<and>
   snd (columns (real_data (fst (snd (eps_evaluate (knn_stub [Fin 2, Fin 2] [Fin 1, Fin 3])
      (example_instance ''euclid'') example_store)))) ! 0) = [30, 41] \<and>
   snd (columns (synt_data (fst (snd (eps_evaluate (knn_stub [Fin 2, Fin 2] [Fin 1, Fin 3])
      (example_instance ''euclid'') example_store)))) ! 0) = [30, 40] \<and>
   ''sex'' \<notin> fst ` set (columns (synt_data (fst (snd (eps_evaluate
      (knn_stub [Fin 2, Fin 2] [Fin 1, Fin 3]) (example_instance ''euclid'') example_store))))) \<and>
   real_data (fst (snd (eps_evaluate (knn_stub [Fin 2, Fin 2] [Fin 1, Fin 3])
      (example_instance ''gower'') example_store))) = example_real"
proof -
  let ?knn = "knn_stub [Fin 2, Fin 2] [Fin 1, Fin 3]"
  have ret: "fst (eps_evaluate ?knn (example_instance ''euclid'') example_store) = Inr 0"
    by (simp add: eps_evaluate_def restrict_to_numeric_def example_instance_def
        getitem_cols_def example_real_def example_synt_def knn_stub_def np_subtract_def)
  have e: "nn_dist (example_instance ''euclid'') = ''euclid''"
    and g: "nn_dist (example_instance ''gower'') \<noteq> ''euclid''"
    and c: "cat_cols (example_instance ''euclid'') = [''sex'']"
    and n: "num_cols (example_instance ''euclid'') = [''age'']"
    and d: "real_data (example_instance ''gower'') = example_real"
    and r: "real_data (example_instance ''euclid'') = example_real"
    and s: "synt_data (example_instance ''euclid'') = example_synt"
    by (simp_all add: example_instance_def)
  have cells: "map_of (columns example_real) ''age'' = Some [30, 41]"
    "map_of (columns example_synt) ''age'' = Some [30, 40]"
    "nrows example_real = 2"
    by (simp_all add: example_real_def example_synt_def)
  show ?thesis
    using eps_evaluate_dataset_attributes [of "example_instance ''euclid''" ?knn example_store 0]
      eps_evaluate_dataset_attributes [of "example_instance ''gower''" ?knn example_store 0]
    by (simp add: ret e g c n d r s cells)
qed

section \<open>The numeric block and the diagonal of the mixed matrix\<close>

lemma upt_small: "[0..<2] = [0, 1]" "[0..<Suc (Suc 0)] = [0, 1]" "[0..<Suc 0] = [0]"
  by (simp_all add: upt_rec)

lemma sqrt_196_9: "sqrt (196 / 9) = 14 / 3"
  by (rule real_sqrt_unique) (simp_all add: power2_eq_square)

lemma pearson_ranked:
  "pearson [0, 1, 3] [0, 1, 3] = Fin 1"
  "pearson [0, 2, 3] [0, 2, 3] = Fin 1"
  "pearson [0, 1, 3] [0, 2, 3] = Fin (13 / 14)"
  "pearson [0, 2, 3] [0, 1, 3] = Fin (13 / 14)"
  by (simp_all add: pearson_def Let_def power2_eq_square sqrt_196_9)

lemma spearman_ranked: "spearman [0, 1, 3] [0, 2, 3] = Fin 1"
  by (simp add: spearman_def rankdata_def pearson_def Let_def power2_eq_square)

lemma pearson_single: "pearson [a] [b] = NaN"
  by (simp add: pearson_def)

lemma cramers_V_single: "cramers_V [a] [a] = Inr (Fin 0)"
  by (simp add: cramers_V_def pd_crosstab_def chi2_contingency_def shape_def
      expected_freq_def column_sums_def upt_small)

lemma correlation_ratio_single: "correlation_ratio [a] [b] = Inr (Fin 0)"
  by (simp add: correlation_ratio_def factorize_def uniques_def np_max_def np_average_def
      fl_square_def fl_sub_def upt_small)

text \<open>
  Claim C1. The docstrings of \<open>mixed_correlation\<close> and of \<open>evaluate\<close> name Spearman's
  rho for two numeric columns, and the code calls \<open>corr()\<close> with its default method,
  which is Pearson's. On the columns \<open>x = [0, 1, 3]\<close> and \<open>y = [0, 2, 3]\<close>, one an
  increasing function of the other, the entry of the matrix for \<open>x\<close> and \<open>y\<close> is
  \<open>13/14\<close>, and Spearman's rho of the two columns is 1.
\<close>

theorem numeric_block_is_pearson:
  "mixed_correlation example_ranked [''x'', ''y''] [] =
     Inr [[Fin 1, Fin (13 / 14)], [Fin (13 / 14), Fin 1]] \<and>
   spearman [0, 1, 3] [0, 2, 3] = Fin 1"
  by (simp add: mixed_correlation_def getitem_cols_def df_corr_def example_ranked_def
      mat_transpose_def mat_add_def np_diag_def np_diag_of_def fl_sub_def spearman_ranked
      pearson_ranked Let_def upt_small)

text \<open>
  Claim C3. The last line of \<open>mixed_correlation\<close> adds \<open>1 - d\<close> to every diagonal
  entry \<open>d\<close>, which gives 1 when \<open>d\<close> is a number and NaN when \<open>d\<close> is NaN. On a frame of
  one row the correlation of the numeric column with itself is NaN, and so is the diagonal
  entry of the result; the diagonal entry of the categorical column is 1.
\<close>

theorem diagonal_nan_on_single_row:
  "mixed_correlation example_single_row [''age''] [''sex''] =
     Inr [[Fin 1, Fin 0], [Fin 0, NaN]]"
  by (simp add: mixed_correlation_def getitem_cols_def df_corr_def example_single_row_def
      mat_transpose_def mat_add_def np_diag_def np_diag_of_def fl_sub_def pearson_single
      cramers_V_single correlation_ratio_single Let_def upt_small)

section \<open>The mixed correlation metric on identical data\<close>

lemma mixed_evaluate_raises:
  "correlation_matrices mixed (self0\<lparr>mixed_corr := Some mixed\<rparr>) = Inl e \<Longrightarrow>
   mixed_evaluate mixed return_mats self0 st = (Inl e, self0\<lparr>mixed_corr := Some mixed\<rparr>, st)"
  by (simp add: mixed_evaluate_def)

lemma mixed_evaluate_returns:
  assumes "correlation_matrices mixed (self0\<lparr>mixed_corr := Some mixed\<rparr>) = Inr (r_corr, f_corr)"
  shows "fst (mixed_evaluate mixed return_mats self0 st) = Inr (next_free st)"
    and "results (fst (snd (mixed_evaluate mixed return_mats self0 st))) = next_free st"
    and "objs (snd (snd (mixed_evaluate mixed return_mats self0 st))) (next_free st) =
           (if return_mats
            then [''corr_mat_diff'' \<mapsto> Scalar (frobenius_norm (mat_sub r_corr f_corr)),
                  ''real_cor_mat'' \<mapsto> Matrix r_corr, ''synt_cor_mat'' \<mapsto> Matrix f_corr,
                  ''diff_cor_mat'' \<mapsto> Matrix (mat_sub r_corr f_corr)]
            else [''corr_mat_diff'' \<mapsto> Scalar (frobenius_norm (mat_sub r_corr f_corr))])"
    and "b \<noteq> next_free st \<Longrightarrow>
           objs (snd (snd (mixed_evaluate mixed return_mats self0 st))) b = objs st b"
  using assms by (simp_all add: mixed_evaluate_def new_dict_def dict_setitem_def Let_def)

lemma fl_sub_self: "is_finite x \<Longrightarrow> fl_sub x x = Fin 0"
  by (cases x) (simp_all add: fl_sub_def)

lemma map2_fl_sub_self:
  "list_all is_finite row \<Longrightarrow> list_all (\<lambda>x. x = Fin 0) (map2 fl_sub row row)"
  by (induction row) (simp_all add: fl_sub_self)

lemma fl_sum_squares_zero:
  "list_all (\<lambda>x. x = Fin 0) xs \<Longrightarrow> fl_sum (map fl_square xs) = Fin 0"
  by (induction xs) (simp_all add: fl_square_def)

lemma concat_mat_sub_self:
  "all_finite M \<Longrightarrow> list_all (\<lambda>x. x = Fin 0) (concat (mat_sub M M))"
  unfolding all_finite_def mat_sub_def
  by (induction M) (simp_all add: map2_fl_sub_self)

lemma frobenius_norm_self: "all_finite M \<Longrightarrow> frobenius_norm (mat_sub M M) = Fin 0"
  by (simp add: frobenius_norm_def fl_sum_squares_zero concat_mat_sub_self)

text \<open>
  Claim C5, as the code has it. When the real and the synthetic data are the same frame
  and every entry of its mixed correlation matrix is a number, \<open>evaluate\<close> in mixed
  mode returns, the entry \<open>corr_mat_diff\<close> of the returned results is 0, and
  \<open>normalize_output\<close> then returns the value \<open>1 - tanh 0 = 1\<close> with the error bar 0.
\<close>

theorem identical_data_no_difference:
  assumes "real_data self0 = synt_data self0"
    and "mixed_correlation (real_data self0) (num_cols self0) (cat_cols self0) = Inr M"
    and "all_finite M"
  shows "fst (mixed_evaluate True return_mats self0 st) =
           Inr (results (fst (snd (mixed_evaluate True return_mats self0 st)))) \<and>
         objs (snd (snd (mixed_evaluate True return_mats self0 st)))
           (results (fst (snd (mixed_evaluate True return_mats self0 st)))) ''corr_mat_diff'' =
           Some (Scalar (Fin 0)) \<and>
         mixed_normalize_output (fst (snd (mixed_evaluate True return_mats self0 st)))
           (snd (snd (mixed_evaluate True return_mats self0 st))) = Inr ([Scalar (Fin 1)], [0])"
proof -
  have cm: "correlation_matrices True (self0\<lparr>mixed_corr := Some True\<rparr>) = Inr (M, M)"
    using assms(1,2) by (simp add: correlation_matrices_def)
  note ev = mixed_evaluate_returns [OF cm, where return_mats = return_mats and st = st]
  have stored: "objs (snd (snd (mixed_evaluate True return_mats self0 st))) (next_free st)
      ''corr_mat_diff'' = Some (Scalar (Fin 0))"
    using assms(3) by (simp add: ev(3) frobenius_norm_self)
  show ?thesis
    using stored by (simp add: ev(1,2) mixed_normalize_output_def fl_sub_def)
qed


lemma sqrt_14641_4: "sqrt (14641 / 4) = 121 / 2"
  by (rule real_sqrt_unique) (simp_all add: power2_eq_square)

lemma pearson_age: "pearson [30, 41] [30, 41] = Fin 1"
  by (simp add: pearson_def Let_def power2_eq_square sqrt_14641_4)

lemma pearson_constant: "pearson [30, 41] [3, 3] = NaN" "pearson [3, 3] [30, 41] = NaN"
  "pearson [3, 3] [3, 3] = NaN"
  by (simp_all add: pearson_def Let_def)

lemma cramers_V_sex: "cramers_V [0, 1] [0, 1] = Inr (Fin 0)"
  by (simp add: cramers_V_def pd_crosstab_def chi2_contingency_def shape_def
      expected_freq_def column_sums_def upt_small yates_def)

lemma correlation_ratio_sex_age: "correlation_ratio [0, 1] [30, 41] = Inr (Fin 1)"
  by (simp add: correlation_ratio_def factorize_def uniques_def np_max_def np_average_def
      fl_square_def fl_sub_def upt_small power2_eq_square)

lemma mixed_correlation_example_real:
  "mixed_correlation example_real [''age''] [''sex''] = Inr [[Fin 1, Fin 1], [Fin 1, Fin 1]]"
  by (simp add: mixed_correlation_def getitem_cols_def df_corr_def example_real_def
      mat_transpose_def mat_add_def np_diag_def np_diag_of_def fl_sub_def pearson_age
      cramers_V_sex correlation_ratio_sex_age Let_def upt_small)

lemma mixed_correlation_example_constant:
  "mixed_correlation example_constant [''age'', ''dose''] [] = Inr [[Fin 1, NaN], [NaN, NaN]]"
  by (simp add: mixed_correlation_def getitem_cols_def df_corr_def example_constant_def
      mat_transpose_def mat_add_def np_diag_def np_diag_of_def fl_sub_def pearson_age
      pearson_constant Let_def upt_small)

theorem identical_data_no_difference_witness:
  "objs (snd (snd (mixed_evaluate True False
       (mixed_instance example_real example_real [''age''] [''sex'']) example_store))) 1
     ''corr_mat_diff'' = Some (Scalar (Fin 0)) \<and>
   mixed_normalize_output
     (fst (snd (mixed_evaluate True False
       (mixed_instance example_real example_real [''age''] [''sex'']) example_store)))
     (snd (snd (mixed_evaluate True False
       (mixed_instance example_real example_real [''age''] [''sex'']) example_store))) =
     Inr ([Scalar (Fin 1)], [0])"
proof -
  let ?I = "mixed_instance example_real example_real [''age''] [''sex'']"
  have same: "real_data ?I = synt_data ?I"
    by (simp add: mixed_instance_def)
  have mc: "mixed_correlation (real_data ?I) (num_cols ?I) (cat_cols ?I) =
      Inr [[Fin 1, Fin 1], [Fin 1, Fin 1]]"
    by (simp add: mixed_instance_def mixed_correlation_example_real)
  have fin: "all_finite [[Fin 1, Fin 1], [Fin 1, Fin 1]]"
    by (simp add: all_finite_def)
  have cm: "correlation_matrices True (?I\<lparr>mixed_corr := Some True\<rparr>) =
      Inr ([[Fin 1, Fin 1], [Fin 1, Fin 1]], [[Fin 1, Fin 1], [Fin 1, Fin 1]])"
    using mc by (simp add: correlation_matrices_def mixed_instance_def)
  have a: "results (fst (snd (mixed_evaluate True False ?I example_store))) = 1"
    using mixed_evaluate_returns(2) [OF cm, where return_mats = False and st = example_store]
    by (simp add: example_store_def)
  show ?thesis
    using identical_data_no_difference [OF same mc fin, where return_mats = False
        and st = example_store]
    by (simp add: a)
qed

text \<open>
  With a constant numeric column beside another numeric one, the matrix has NaN entries
  off the diagonal, their differences are NaN, and so is the norm: on identical data the
  entry \<open>corr_mat_diff\<close> is then NaN and not 0, and the normalised value is NaN and
  not 1.
\<close>

theorem identical_data_counterexample:
  "real_data (mixed_instance example_constant example_constant [''age'', ''dose''] []) =
     synt_data (mixed_instance example_constant example_constant [''age'', ''dose''] []) \<and>
   objs (snd (snd (mixed_evaluate True False
       (mixed_instance example_constant example_constant [''age'', ''dose''] []) example_store))) 1
     ''corr_mat_diff'' = Some (Scalar NaN) \<and>
   mixed_normalize_output
     (fst (snd (mixed_evaluate True False
       (mixed_instance example_constant example_constant [''age'', ''dose''] []) example_store)))
     (snd (snd (mixed_evaluate True False
       (mixed_instance example_constant example_constant [''age'', ''dose''] []) example_store))) =
     Inr ([Scalar NaN], [0])"
proof -
  let ?I = "mixed_instance example_constant example_constant [''age'', ''dose''] []"
  have cm: "correlation_matrices True (?I\<lparr>mixed_corr := Some True\<rparr>) =
      Inr ([[Fin 1, NaN], [NaN, NaN]], [[Fin 1, NaN], [NaN, NaN]])"
    by (simp add: correlation_matrices_def mixed_instance_def mixed_correlation_example_constant)
  note ev = mixed_evaluate_returns [OF cm, where return_mats = False and st = example_store]
  have n: "next_free example_store = 1"
    by (simp add: example_store_def)
  have norm: "frobenius_norm (mat_sub [[Fin 1, NaN], [NaN, NaN]] [[Fin 1, NaN], [NaN, NaN]]) = NaN"
    by (simp add: frobenius_norm_def mat_sub_def fl_sub_def fl_square_def)
  have stored: "objs (snd (snd (mixed_evaluate True False ?I example_store))) 1
      ''corr_mat_diff'' = Some (Scalar NaN)"
    using ev(3) by (simp add: n norm)
  have res: "results (fst (snd (mixed_evaluate True False ?I example_store))) = 1"
    using ev(2) by (simp add: n)
  show ?thesis
    using stored by (simp add: res mixed_normalize_output_def fl_sub_def) (simp add: mixed_instance_def)
qed


section \<open>The results mapping\<close>

lemma eps_evaluate_store:
  "snd (snd (eps_evaluate knn self0 st)) = st \<or>
   (\<exists>v. fst (eps_evaluate knn self0 st) = Inr (results self0) \<and>
        snd (snd (eps_evaluate knn self0 st)) =
          dict_setitem st (results self0) ''eps_risk'' (Scalar v))"
proof (cases "restrict_to_numeric self0")
  case (Pair r self)
  then have res: "results self = results self0"
    by (rule restrict_to_numeric_results)
  show ?thesis
    using Pair res
    by (cases r) (auto simp: eps_evaluate_def Let_def split: sum.splits)
qed

lemma eps_evaluate_address:
  "fst (eps_evaluate knn self0 st) = Inr a \<Longrightarrow> a = results self0"
proof (cases "restrict_to_numeric self0")
  case (Pair r self)
  assume ret: "fst (eps_evaluate knn self0 st) = Inr a"
  from Pair have res: "results self = results self0"
    by (rule restrict_to_numeric_results)
  show ?thesis
    using Pair res ret
    by (cases r) (auto simp: eps_evaluate_def Let_def split: sum.splits)
qed

text \<open>
  Claim C9, as the code has it. \<open>EpsilonIdentifiability.evaluate\<close> writes into the dict
  that the instance already refers to: the attribute \<open>results\<close> is the same address, the
  call returns that address, no dict is created, every entry other than \<open>eps_risk\<close> is
  as it was, and so is every other dict. \<open>MixedCorrelation.evaluate\<close> binds a new dict to
  \<open>results\<close> and returns it: its keys are \<open>corr_mat_diff\<close>, and the three matrices
  under \<open>return_mats\<close>, and every dict that existed before, the one the instance
  referred to among them, is as it was.
\<close>

theorem evaluate_results_mapping:
  "results (fst (snd (eps_evaluate knn self st))) = results self \<and>
   (fst (eps_evaluate knn self st) = Inr a \<longrightarrow> a = results self) \<and>
   (k \<noteq> ''eps_risk'' \<longrightarrow> objs (snd (snd (eps_evaluate knn self st))) b k = objs st b k) \<and>
   (b \<noteq> results self \<longrightarrow> objs (snd (snd (eps_evaluate knn self st))) b = objs st b) \<and>
   next_free (snd (snd (eps_evaluate knn self st))) = next_free st \<and>
   (fst (mixed_evaluate mixed return_mats other st) = Inr a' \<longrightarrow>
      a' = next_free st \<and>
      results (fst (snd (mixed_evaluate mixed return_mats other st))) = next_free st \<and>
      dom (objs (snd (snd (mixed_evaluate mixed return_mats other st))) (next_free st)) =
        (if return_mats
         then {''corr_mat_diff'', ''real_cor_mat'', ''synt_cor_mat'', ''diff_cor_mat''}
         else {''corr_mat_diff''}) \<and>
      (b \<noteq> next_free st \<longrightarrow>
         objs (snd (snd (mixed_evaluate mixed return_mats other st))) b = objs st b))"
proof -
  obtain r restricted where rs: "restrict_to_numeric self = (r, restricted)"
    by (cases "restrict_to_numeric self")
  have e1: "results (fst (snd (eps_evaluate knn self st))) = results self"
    using eps_evaluate_instance [OF rs] restrict_to_numeric_results [OF rs] by simp
  have e2: "fst (eps_evaluate knn self st) = Inr a \<longrightarrow> a = results self"
    using eps_evaluate_address by blast
  have e3: "k \<noteq> ''eps_risk'' \<longrightarrow> objs (snd (snd (eps_evaluate knn self st))) b k = objs st b k"
    using eps_evaluate_store [of knn self st] by (auto simp: dict_setitem_def)
  have e4: "b \<noteq> results self \<longrightarrow> objs (snd (snd (eps_evaluate knn self st))) b = objs st b"
    using eps_evaluate_store [of knn self st] by (auto simp: dict_setitem_def)
  have e5: "next_free (snd (snd (eps_evaluate knn self st))) = next_free st"
    using eps_evaluate_store [of knn self st] by (auto simp: dict_setitem_def)
  have m: "fst (mixed_evaluate mixed return_mats other st) = Inr a' \<longrightarrow>
      a' = next_free st \<and>
      results (fst (snd (mixed_evaluate mixed return_mats other st))) = next_free st \<and>
      dom (objs (snd (snd (mixed_evaluate mixed return_mats other st))) (next_free st)) =
        (if return_mats
         then {''corr_mat_diff'', ''real_cor_mat'', ''synt_cor_mat'', ''diff_cor_mat''}
         else {''corr_mat_diff''}) \<and>
      (b \<noteq> next_free st \<longrightarrow>
         objs (snd (snd (mixed_evaluate mixed return_mats other st))) b = objs st b)"
  proof (cases "correlation_matrices mixed (other\<lparr>mixed_corr := Some mixed\<rparr>)")
    case (Inl e)
    then show ?thesis
      by (simp add: mixed_evaluate_raises)
  next
    case (Inr p)
    obtain r_corr f_corr where p: "p = (r_corr, f_corr)"
      by (cases p)
    note ev = mixed_evaluate_returns [OF Inr [unfolded p], where return_mats = return_mats
        and st = st]
    have d: "dom (objs (snd (snd (mixed_evaluate mixed return_mats other st))) (next_free st)) =
        (if return_mats
         then {''corr_mat_diff'', ''real_cor_mat'', ''synt_cor_mat'', ''diff_cor_mat''}
         else {''corr_mat_diff''})"
      using ev(3) by (cases return_mats) auto
    show ?thesis
    proof (intro impI conjI)
      show "a' = next_free st" if "fst (mixed_evaluate mixed return_mats other st) = Inr a'"
        using that by (simp add: ev(1))
      show "results (fst (snd (mixed_evaluate mixed return_mats other st))) = next_free st"
        by (rule ev(2))
      show "dom (objs (snd (snd (mixed_evaluate mixed return_mats other st))) (next_free st)) =
        (if return_mats
         then {''corr_mat_diff'', ''real_cor_mat'', ''synt_cor_mat'', ''diff_cor_mat''}
         else {''corr_mat_diff''})"
        by (rule d)
      show "objs (snd (snd (mixed_evaluate mixed return_mats other st))) b = objs st b"
        if "b \<noteq> next_free st"
        using that by (rule ev(4))
    qed
  qed
  from e1 e2 e3 e4 e5 m show ?thesis
    by blast
qed


theorem evaluate_results_mapping_witness:
  "fst (eps_evaluate (knn_stub [Fin 1, Fin 1] [Fin 0, Fin 2]) (example_instance ''gower'')
      example_store_used) = Inr 0 \<and>
   objs (snd (snd (eps_evaluate (knn_stub [Fin 1, Fin 1] [Fin 0, Fin 2])
      (example_instance ''gower'') example_store_used))) 0 ''note'' = Some (Scalar (Fin 7)) \<and>
   dom (objs (snd (snd (mixed_evaluate True False
      (mixed_instance example_real example_real [''age''] [''sex'']) example_store_used))) 1) =
     {''corr_mat_diff''} \<and>
   objs (snd (snd (mixed_evaluate True False
      (mixed_instance example_real example_real [''age''] [''sex'']) example_store_used))) 0 =
     objs example_store_used 0"
proof -
  let ?knn = "knn_stub [Fin 1, Fin 1] [Fin 0, Fin 2]"
  let ?E = "example_instance ''gower''"
  let ?M = "mixed_instance example_real example_real [''age''] [''sex'']"
  have e: "fst (eps_evaluate ?knn ?E example_store_used) = Inr 0"
    by (simp add: eps_evaluate_def restrict_to_numeric_def example_instance_def knn_stub_def
        np_subtract_def example_real_def example_synt_def)
  have cm: "correlation_matrices True (?M\<lparr>mixed_corr := Some True\<rparr>) =
      Inr ([[Fin 1, Fin 1], [Fin 1, Fin 1]], [[Fin 1, Fin 1], [Fin 1, Fin 1]])"
    by (simp add: correlation_matrices_def mixed_instance_def mixed_correlation_example_real)
  have m: "fst (mixed_evaluate True False ?M example_store_used) = Inr 1"
    using mixed_evaluate_returns(1) [OF cm, where return_mats = False and st = example_store_used]
    by (simp add: example_store_used_def)
  have n: "next_free example_store_used = 1" and o: "objs example_store_used 0 ''note'' = Some (Scalar (Fin 7))"
    and r: "results ?E = 0"
    by (simp_all add: example_store_used_def example_instance_def)
  show ?thesis
    using evaluate_results_mapping [where knn = ?knn and self = ?E and st = example_store_used
        and a = 0 and k = "''note''" and b = 0 and mixed = True and return_mats = False
        and other = ?M and a' = 1]
    by (simp add: e m n o r)
qed

text \<open>
  An instance of the mixed correlation metric whose results hold an entry \<open>note\<close>: the
  call returns another dict than the one the instance referred to, and the entry is not in
  it.
\<close>

theorem mixed_evaluate_replaces_results_counterexample:
  "results (mixed_instance example_real example_real [''age''] [''sex'']) = 0 \<and>
   objs example_store_used 0 ''note'' = Some (Scalar (Fin 7)) \<and>
   fst (mixed_evaluate True False (mixed_instance example_real example_real [''age''] [''sex''])
      example_store_used) = Inr 1 \<and>
   objs (snd (snd (mixed_evaluate True False
      (mixed_instance example_real example_real [''age''] [''sex'']) example_store_used))) 1
     ''note'' = None"
proof -
  let ?M = "mixed_instance example_real example_real [''age''] [''sex'']"
  have cm: "correlation_matrices True (?M\<lparr>mixed_corr := Some True\<rparr>) =
      Inr ([[Fin 1, Fin 1], [Fin 1, Fin 1]], [[Fin 1, Fin 1], [Fin 1, Fin 1]])"
    by (simp add: correlation_matrices_def mixed_instance_def mixed_correlation_example_real)
  note ev = mixed_evaluate_returns [OF cm, where return_mats = False and st = example_store_used]
  have n: "next_free example_store_used = 1"
    by (simp add: example_store_used_def)
  show ?thesis
    using ev(1) ev(3) by (simp add: n) (simp add: mixed_instance_def example_store_used_def)
qed


section \<open>Properties of the column entropy\<close>

lemma np_unique_values_set: "set (np_unique_values vs) = set vs"
  and np_unique_values_distinct: "distinct (np_unique_values vs)"
  by (simp_all add: np_unique_values_def)

lemma sum_list_unique_counts: "sum_list (np_unique_counts vs) = length vs"
proof -
  have "sum_list (np_unique_counts vs) = sum (count_list vs) (set vs)"
    unfolding np_unique_counts_def
    by (simp add: sum_list_distinct_conv_sum_set np_unique_values_distinct np_unique_values_set)
  also have "\<dots> = length vs"
    by (rule sum_count_set) simp_all
  finally show ?thesis .
qed

lemma fl_sum_Fin: "fl_sum (map (\<lambda>x. Fin (f x)) xs) = Fin (sum_list (map f xs))"
  by (induction xs) simp_all

lemma entr_share:
  assumes "0 < c" and "0 < n"
  shows "entr (fl_div (Fin (real c)) (Fin (real n))) =
         Fin (- (real c / real n) * ln (real c / real n))"
  using assms by simp

lemma column_entropy_value:
  assumes "vs \<noteq> []"
  shows "entropy (np_unique_counts vs) = Fin (shannon_entropy vs)"
proof -
  let ?n = "length vs"
  let ?us = "np_unique_values vs"
  have n: "0 < ?n" using assms by simp
  have pos: "0 < count_list vs v" if "v \<in> set ?us" for v
    using that by (simp add: np_unique_values_set count_list_0_iff zero_less_iff_neq_zero)
  have "map entr (map (\<lambda>c. fl_div (Fin (real c)) (Fin (real ?n))) (np_unique_counts vs)) =
      map (\<lambda>v. Fin (- (real (count_list vs v) / real ?n) * ln (real (count_list vs v) / real ?n))) ?us"
    unfolding np_unique_counts_def using pos n
    by (simp add: comp_def)
  then have "entropy (np_unique_counts vs) =
      Fin (sum_list (map (\<lambda>v. - (real (count_list vs v) / real ?n) * ln (real (count_list vs v) / real ?n)) ?us))"
    by (simp add: entropy_def sum_list_unique_counts fl_sum_Fin Let_def)
  also have "sum_list (map (\<lambda>v. - (real (count_list vs v) / real ?n) * ln (real (count_list vs v) / real ?n)) ?us)
      = (\<Sum>v \<in> set vs. - (real (count_list vs v) / real ?n) * ln (real (count_list vs v) / real ?n))"
    by (simp add: sum_list_distinct_conv_sum_set np_unique_values_distinct np_unique_values_set)
  also have "\<dots> = shannon_entropy vs"
    by (simp add: shannon_entropy_def sum_negf)
  finally show ?thesis .
qed


lemma share_bounds:
  assumes "v \<in> set vs"
  shows "0 < real (count_list vs v) / real (length vs)"
    and "real (count_list vs v) / real (length vs) \<le> 1"
proof -
  have c: "0 < count_list vs v"
    using assms by (simp add: count_list_0_iff zero_less_iff_neq_zero)
  have n: "0 < length vs"
    using assms by (cases vs) simp_all
  show "0 < real (count_list vs v) / real (length vs)"
    using c n by simp
  show "real (count_list vs v) / real (length vs) \<le> 1"
    using n count_le_length [of vs v] by (simp add: divide_le_eq)
qed

lemma entropy_term_nonneg:
  fixes p :: real
  assumes "0 < p" and "p \<le> 1"
  shows "0 \<le> - (p * ln p)"
proof -
  have "ln p \<le> 0" using assms by simp
  then have "p * ln p \<le> 0"
    using assms(1) by (simp add: mult_le_0_iff)
  then show ?thesis by simp
qed

lemma entropy_term_zero_iff:
  fixes p :: real
  assumes "0 < p" and "p \<le> 1"
  shows "- (p * ln p) = 0 \<longleftrightarrow> p = 1"
  using assms by auto

lemma shannon_entropy_nonneg: "0 \<le> shannon_entropy vs"
proof -
  have "0 \<le> (\<Sum>v \<in> set vs. - ((real (count_list vs v) / real (length vs))
      * ln (real (count_list vs v) / real (length vs))))"
    by (intro sum_nonneg entropy_term_nonneg share_bounds)
  then show ?thesis
    by (simp add: shannon_entropy_def sum_negf)
qed


lemma all_counts_full_iff:
  assumes "vs \<noteq> []"
  shows "(\<forall>v \<in> set vs. count_list vs v = length vs) \<longleftrightarrow> card (set vs) = 1"
proof
  assume full: "\<forall>v \<in> set vs. count_list vs v = length vs"
  have "length vs = sum (count_list vs) (set vs)"
    by (rule sum_count_set [symmetric]) simp_all
  also have "\<dots> = (\<Sum>v \<in> set vs. length vs)"
    using full by (intro sum.cong) simp_all
  also have "\<dots> = card (set vs) * length vs"
    by simp
  finally have "length vs = card (set vs) * length vs" .
  moreover have "0 < length vs" using assms by simp
  ultimately show "card (set vs) = 1" by simp
next
  assume one: "card (set vs) = 1"
  then obtain a where a: "set vs = {a}"
    by (auto simp: card_1_singleton_iff)
  have "length vs = sum (count_list vs) (set vs)"
    by (rule sum_count_set [symmetric]) simp_all
  then have "count_list vs a = length vs"
    by (simp add: a)
  then show "\<forall>v \<in> set vs. count_list vs v = length vs"
    by (simp add: a)
qed

lemma shannon_entropy_zero_iff:
  assumes "vs \<noteq> []"
  shows "shannon_entropy vs = 0 \<longleftrightarrow> card (set vs) = 1"
proof -
  let ?p = "\<lambda>v. real (count_list vs v) / real (length vs)"
  have n: "0 < length vs" using assms by simp
  have "shannon_entropy vs = (\<Sum>v \<in> set vs. - (?p v * ln (?p v)))"
    by (simp add: shannon_entropy_def sum_negf)
  moreover have "(\<Sum>v \<in> set vs. - (?p v * ln (?p v))) = 0 \<longleftrightarrow>
      (\<forall>v \<in> set vs. - (?p v * ln (?p v)) = 0)"
    by (rule sum_nonneg_eq_0_iff) (simp_all only: List.finite_set entropy_term_nonneg share_bounds)
  ultimately have "shannon_entropy vs = 0 \<longleftrightarrow> (\<forall>v \<in> set vs. - (?p v * ln (?p v)) = 0)"
    by (simp only:)
  also have "\<dots> \<longleftrightarrow> (\<forall>v \<in> set vs. ?p v = 1)"
    by (intro ball_cong refl entropy_term_zero_iff share_bounds)
  also have "\<dots> \<longleftrightarrow> (\<forall>v \<in> set vs. count_list vs v = length vs)"
  proof -
    have "?p v = 1 \<longleftrightarrow> count_list vs v = length vs" for v
    proof
      assume "?p v = 1"
      then have "real (count_list vs v) = real (length vs)"
        using n by (simp add: divide_eq_eq)
      then show "count_list vs v = length vs" by (simp only: of_nat_eq_iff)
    next
      assume "count_list vs v = length vs"
      then show "?p v = 1" using n by simp
    qed
    then show ?thesis by (simp only:)
  qed
  also have "\<dots> \<longleftrightarrow> card (set vs) = 1"
    using assms by (rule all_counts_full_iff)
  finally show ?thesis .
qed

lemma shannon_entropy_uniform:
  assumes "vs \<noteq> []" and "\<forall>v \<in> set vs. count_list vs v = c"
  shows "shannon_entropy vs = ln (real (card (set vs)))"
proof -
  let ?k = "card (set vs)"
  have k: "0 < ?k" using assms(1) by (simp add: card_gt_0_iff)
  have "length vs = sum (count_list vs) (set vs)"
    by (rule sum_count_set [symmetric]) simp_all
  also have "\<dots> = (\<Sum>v \<in> set vs. c)"
    using assms(2) by (intro sum.cong) simp_all
  finally have len: "length vs = ?k * c" by simp
  have c: "0 < c" using len assms(1) by (cases c) simp_all
  have share: "real (count_list vs v) / real (length vs) = 1 / real ?k" if "v \<in> set vs" for v
    using that assms(2) c k by (simp add: len)
  have "shannon_entropy vs = - (\<Sum>v \<in> set vs. (1 / real ?k) * ln (1 / real ?k))"
    unfolding shannon_entropy_def using share by (simp cong: sum.cong)
  also have "\<dots> = - (real ?k * ((1 / real ?k) * ln (1 / real ?k)))"
    by simp
  also have "\<dots> = ln (real ?k)"
    using k by (simp add: ln_div)
  finally show ?thesis .
qed

lemma column_entropy_permutation:
  assumes "mset labels' = mset labels"
  shows "column_entropy labels' = column_entropy labels"
proof -
  let ?vs = "map np_round labels" and ?ws = "map np_round labels'"
  have m: "mset ?ws = mset ?vs"
    using assms by (metis mset_map)
  have "set ?ws = set ?vs"
    using m by (rule mset_eq_setD)
  then have u: "np_unique_values ?ws = np_unique_values ?vs"
    unfolding np_unique_values_def by (metis sorted_list_of_set_sort_remdups)
  have "count_list ?ws v = count_list ?vs v" for v
    using m by (metis count_mset)
  then have "count_list ?ws = count_list ?vs" by (rule ext)
  with u show ?thesis
    by (simp add: column_entropy_def np_unique_counts_def)
qed


lemma np_round_nearest:
  "\<bar>real_of_int (np_round x) - x\<bar> \<le> 1 / 2"
  "\<bar>real_of_int (np_round x) - x\<bar> = 1 / 2 \<Longrightarrow> even (np_round x)"
proof -
  let ?f = "\<lfloor>x\<rfloor>"
  let ?d = "x - real_of_int ?f"
  have lo: "0 \<le> ?d" and hi: "?d < 1"
    by linarith+
  show "\<bar>real_of_int (np_round x) - x\<bar> \<le> 1 / 2"
    using lo hi by (simp add: np_round_def Let_def)
  show "even (np_round x)" if "\<bar>real_of_int (np_round x) - x\<bar> = 1 / 2"
  proof (cases "?d < 1 / 2")
    case True
    then have "np_round x = ?f" by (simp add: np_round_def Let_def)
    with that True lo show ?thesis by simp
  next
    case False
    show ?thesis
    proof (cases "1 / 2 < ?d")
      case True
      then have "np_round x = ?f + 1" using False by (simp add: np_round_def Let_def)
      with that True hi show ?thesis by simp
    next
      case half: False
      with False show ?thesis
        by (cases "even ?f") (simp_all add: np_round_def Let_def)
    qed
  qed
qed

text \<open>
  Claim C8. For a column that is not empty, \<open>_column_entropy\<close> returns the Shannon
  entropy (natural logarithm) of the shares of the values rounded to the nearest integer:
  the rounded value is an integer at most a half away, and an even one when it is exactly
  a half away. This number is not negative; it is 0 exactly when all the rounded values
  are the same; a permutation of the column gives the same result; and when the \<open>k\<close>
  distinct rounded values occur equally often it is \<open>ln k\<close>.
\<close>

theorem column_entropy_properties:
  assumes "labels \<noteq> []"
  shows "column_entropy labels = Fin (shannon_entropy (map np_round labels)) \<and>
         (\<forall>x. \<bar>real_of_int (np_round x) - x\<bar> \<le> 1 / 2 \<and>
              (\<bar>real_of_int (np_round x) - x\<bar> = 1 / 2 \<longrightarrow> even (np_round x))) \<and>
         0 \<le> shannon_entropy (map np_round labels) \<and>
         (shannon_entropy (map np_round labels) = 0 \<longleftrightarrow>
            (\<forall>x \<in> set labels. \<forall>y \<in> set labels. np_round x = np_round y)) \<and>
         (\<forall>labels'. mset labels' = mset labels \<longrightarrow>
            column_entropy labels' = column_entropy labels) \<and>
         (\<forall>c. (\<forall>x \<in> set labels. count_list (map np_round labels) (np_round x) = c) \<longrightarrow>
            shannon_entropy (map np_round labels) = ln (real (card (np_round ` set labels))))"
proof -
  let ?vs = "map np_round labels"
  have ne: "?vs \<noteq> []" using assms by simp
  have one: "card (set ?vs) = 1 \<longleftrightarrow>
      (\<forall>x \<in> set labels. \<forall>y \<in> set labels. np_round x = np_round y)"
  proof
    assume "card (set ?vs) = 1"
    then obtain a where "set ?vs = {a}" by (auto simp: card_1_singleton_iff)
    then have "np_round x = a" if "x \<in> set labels" for x
      using that by (metis image_eqI list.set_map singletonD)
    then show "\<forall>x \<in> set labels. \<forall>y \<in> set labels. np_round x = np_round y"
      by simp
  next
    assume same: "\<forall>x \<in> set labels. \<forall>y \<in> set labels. np_round x = np_round y"
    obtain x where x: "x \<in> set labels" using assms by (cases labels) auto
    have "np_round ` set labels = {np_round x}"
    proof (intro equalityI subsetI)
      fix v assume "v \<in> np_round ` set labels"
      then obtain y where y: "y \<in> set labels" and v: "v = np_round y" by blast
      from same y x have "np_round y = np_round x" by blast
      with v show "v \<in> {np_round x}" by (simp only: singleton_iff)
    next
      fix v assume "v \<in> {np_round x}"
      with x show "v \<in> np_round ` set labels" by simp
    qed
    then show "card (set ?vs) = 1" by simp
  qed
  have uniform: "shannon_entropy ?vs = ln (real (card (np_round ` set labels)))"
    if "\<forall>x \<in> set labels. count_list ?vs (np_round x) = c" for c
  proof -
    have "\<forall>v \<in> set ?vs. count_list ?vs v = c" using that by simp
    from shannon_entropy_uniform [OF ne this] show ?thesis by simp
  qed
  have stored: "column_entropy labels = Fin (shannon_entropy ?vs)"
    using column_entropy_value [OF ne] by (simp add: column_entropy_def)
  have zero: "shannon_entropy ?vs = 0 \<longleftrightarrow>
      (\<forall>x \<in> set labels. \<forall>y \<in> set labels. np_round x = np_round y)"
    using shannon_entropy_zero_iff [OF ne] one by (simp only:)
  show ?thesis
  proof (intro conjI allI impI)
    show "column_entropy labels = Fin (shannon_entropy ?vs)" by (rule stored)
    show "\<bar>real_of_int (np_round x) - x\<bar> \<le> 1 / 2" for x
      by (rule np_round_nearest(1))
    show "even (np_round x)" if "\<bar>real_of_int (np_round x) - x\<bar> = 1 / 2" for x
      using that by (rule np_round_nearest(2))
    show "0 \<le> shannon_entropy ?vs" by (rule shannon_entropy_nonneg)
    show "shannon_entropy ?vs = 0 \<longleftrightarrow>
      (\<forall>x \<in> set labels. \<forall>y \<in> set labels. np_round x = np_round y)" by (rule zero)
    show "column_entropy labels' = column_entropy labels" if "mset labels' = mset labels"
      for labels' using that by (rule column_entropy_permutation)
    show "shannon_entropy ?vs = ln (real (card (np_round ` set labels)))"
      if "\<forall>x \<in> set labels. count_list ?vs (np_round x) = c" for c
      using that by (rule uniform)
  qed
qed


lemma np_round_examples:
  "np_round 1 = 1" "np_round (3 / 2) = 2" "np_round (5 / 2) = 2"
  by (simp_all add: np_round_def Let_def)

theorem column_entropy_properties_witness:
  "column_entropy [1, 3 / 2, 5 / 2, 1] = Fin (ln 2) \<and>
   column_entropy [5 / 2, 1, 1, 3 / 2] = column_entropy [1, 3 / 2, 5 / 2, 1] \<and>
   \<bar>real_of_int (np_round (5 / 2)) - 5 / 2\<bar> \<le> 1 / 2"
proof -
  let ?labels = "[1, 3 / 2, 5 / 2, 1 :: real]"
  have ne: "?labels \<noteq> []" by simp
  note p = column_entropy_properties [OF ne]
  have uniform: "\<forall>x \<in> set ?labels. count_list (map np_round ?labels) (np_round x) = 2"
    by (simp add: np_round_examples)
  have "np_round ` set ?labels = {1, 2}"
    by (auto simp: np_round_examples)
  then have k: "card (np_round ` set ?labels) = 2"
    by simp
  have perm: "mset [5 / 2, 1, 1, 3 / 2 :: real] = mset ?labels"
    by (simp add: add_mset_commute)
  from p uniform have "shannon_entropy (map np_round ?labels) = ln (real (card (np_round ` set ?labels)))"
    by blast
  with k have "shannon_entropy (map np_round ?labels) = ln 2" by simp
  moreover from p have "column_entropy ?labels = Fin (shannon_entropy (map np_round ?labels))"
    by blast
  moreover from p perm have "column_entropy [5 / 2, 1, 1, 3 / 2] = column_entropy ?labels"
    by blast
  moreover from p have "\<bar>real_of_int (np_round (5 / 2)) - 5 / 2\<bar> \<le> 1 / 2"
    by blast
  ultimately show ?thesis by (simp only: simp_thms)
qed


section \<open>The symmetry of Cramer's V\<close>

















lemma cramers_V_example:
  "cramers_V [0, 1, 1, 0, 2] [5, 5, 6, 6, 6] = Inr (Fin ((5 / 6) / (5 + 1 / 10 ^ 16)))"
  "cramers_V [5, 5, 6, 6, 6] [0, 1, 1, 0, 2] = Inr (Fin ((5 / 6) / (5 + 1 / 10 ^ 16)))"
  by (simp_all add: cramers_V_def pd_crosstab_def chi2_contingency_def shape_def
      expected_freq_def column_sums_def upt_rec [of 0] upt_rec [of 1] upt_rec [of 2] yates_def
      power2_eq_square)









section \<open>The correlation ratio of a constant column\<close>

lemma pow2_powr: "pow2 k = 2 powr real_of_int k"
  by (simp add: pow2_def powr_real_of_int inverse_eq_divide)

lemma round_double_eval:
  assumes "x \<noteq> 0" and "- 1022 \<le> k" and "pow2 k \<le> \<bar>x\<bar>" and "\<bar>x\<bar> < pow2 (k + 1)"
    and "np_round (x / pow2 (k - 52)) = n"
    and "\<bar>real_of_int n * pow2 (k - 52)\<bar> < 2 ^ 1024"
  shows "round_double x = Fin (real_of_int n * pow2 (k - 52))"
proof -
  have "\<lfloor>log 2 \<bar>x\<bar>\<rfloor> = k"
    using assms(1,3,4) by (subst floor_log_eq_powr_iff) (simp_all add: pow2_powr)
  then have "max \<lfloor>log 2 \<bar>x\<bar>\<rfloor> (- 1022) = k"
    using assms(2) by simp
  then show ?thesis
    using assms(1,5,6) by (simp add: round_double_def Let_def)
qed


lemma round_double_zero: "round_double 0 = Fin 0"
  by (simp add: round_double_def)

lemma rd_1: "round_double (1 / 10) = Fin (3602879701896397 / 36028797018963968)"
  using round_double_eval [of "1 / 10" "- 4" 7205759403792794]
  by (simp add: pow2_def np_round_def Let_def)

lemma rd_2: "round_double (3602879701896397 / 36028797018963968) = Fin (3602879701896397 / 36028797018963968)"
  using round_double_eval [of "3602879701896397 / 36028797018963968" "- 4" 7205759403792794]
  by (simp add: pow2_def np_round_def Let_def)

lemma rd_3: "round_double (3602879701896397 / 18014398509481984) = Fin (3602879701896397 / 18014398509481984)"
  using round_double_eval [of "3602879701896397 / 18014398509481984" "- 3" 7205759403792794]
  by (simp add: pow2_def np_round_def Let_def)

lemma rd_4: "round_double (10808639105689191 / 36028797018963968) = Fin (1351079888211149 / 4503599627370496)"
  using round_double_eval [of "10808639105689191 / 36028797018963968" "- 2" 5404319552844596]
  by (simp add: pow2_def np_round_def Let_def)

lemma rd_5: "round_double (1351079888211149 / 13510798882111488) = Fin (7205759403792795 / 72057594037927936)"
  using round_double_eval [of "1351079888211149 / 13510798882111488" "- 4" 7205759403792795]
  by (simp add: pow2_def np_round_def Let_def)

lemma rd_6: "round_double (21617278211378385 / 72057594037927936) = Fin (1351079888211149 / 4503599627370496)"
  using round_double_eval [of "21617278211378385 / 72057594037927936" "- 2" 5404319552844596]
  by (simp add: pow2_def np_round_def Let_def)

lemma rd_7: "round_double (1351079888211149 / 4503599627370496) = Fin (1351079888211149 / 4503599627370496)"
  using round_double_eval [of "1351079888211149 / 4503599627370496" "- 2" 5404319552844596]
  by (simp add: pow2_def np_round_def Let_def)

lemma rd_8: "round_double (14411518807585589 / 36028797018963968) = Fin (3602879701896397 / 9007199254740992)"
  using round_double_eval [of "14411518807585589 / 36028797018963968" "- 2" 7205759403792794]
  by (simp add: pow2_def np_round_def Let_def)

lemma rd_9: "round_double (3) = Fin (3)"
  using round_double_eval [of "3" "1" 6755399441055744]
  by (simp add: pow2_def np_round_def Let_def)

lemma rd_10: "round_double (4) = Fin (4)"
  using round_double_eval [of "4" "2" 4503599627370496]
  by (simp add: pow2_def np_round_def Let_def)

lemma rd_11: "round_double (1 / 72057594037927936) = Fin (1 / 72057594037927936)"
  using round_double_eval [of "1 / 72057594037927936" "- 56" 4503599627370496]
  by (simp add: pow2_def np_round_def Let_def)

lemma rd_12: "round_double (1 / 5192296858534827628530496329220096) = Fin (1 / 5192296858534827628530496329220096)"
  using round_double_eval [of "1 / 5192296858534827628530496329220096" "- 112" 4503599627370496]
  by (simp add: pow2_def np_round_def Let_def)

lemma rd_13: "round_double (3 / 5192296858534827628530496329220096) = Fin (3 / 5192296858534827628530496329220096)"
  using round_double_eval [of "3 / 5192296858534827628530496329220096" "- 111" 6755399441055744]
  by (simp add: pow2_def np_round_def Let_def)

lemma rd_14: "round_double (1) = Fin (1)"
  using round_double_eval [of "1" "0" 4503599627370496]
  by (simp add: pow2_def np_round_def Let_def)

lemma rd_15: "round_double (- (1 / 72057594037927936)) = Fin (- (1 / 72057594037927936))"
  using round_double_eval [of "- (1 / 72057594037927936)" "- 56" "- 4503599627370496"]
  by (simp add: pow2_def np_round_def Let_def)

lemma rd_16: "round_double (1 / 2596148429267413814265248164610048) = Fin (1 / 2596148429267413814265248164610048)"
  using round_double_eval [of "1 / 2596148429267413814265248164610048" "- 111" 4503599627370496]
  by (simp add: pow2_def np_round_def Let_def)

text \<open>
  Claim C6. The zero branch of \<open>_correlation_ratio\<close> is there for the constant
  column, and in double precision it misses it. For four measurements \<open>0.1\<close>, three in
  one category and one in another, the mean of the three is \<open>0.10000000000000002\<close>,
  the grand mean is \<open>0.1\<close>, the numerator is \<open>3 / 2^112\<close> and the denominator is 0:
  the function divides by zero and returns infinity. For three measurements \<open>0.1\<close>,
  one in one category and two in another, numerator and denominator are both
  \<open>3 / 2^112\<close> and the function returns 1.
\<close>

theorem correlation_ratio_double_constant_column:
  "round_double (1 / 10) = Fin tenth \<and>
   correlation_ratio_double [0, 0, 0, 1] [tenth, tenth, tenth, tenth] = Some (Inr PInf) \<and>
   correlation_ratio_double [0, 1, 1] [tenth, tenth, tenth] = Some (Inr (Fin 1))"
  by (simp add: correlation_ratio_double_def factorize_def uniques_def np_max_def
      np_sum_double_def fl_square_def fl_sub_def upt_small upt_rec [of 0] upt_rec [of 1]
      upt_rec [of 2] upt_rec [of 3] tenth_def Let_def round_double_zero signed_inf_def
      rd_1 rd_2 rd_3 rd_4 rd_5 rd_6 rd_7 rd_8 rd_9 rd_10 rd_11 rd_12 rd_13 rd_14 rd_15 rd_16)

end
